theory Spec2Isabelle
  imports Main "HOL-Library.Sublist" "HOL-Library.Char_ord" "HOL-Library.List_Lexorder"
begin

section \<open>Python strings\<close>

text \<open>
  A Python \<open>str\<close> is a sequence of code points. The model uses \<^typ>\<open>string\<close>, whose
  characters are the code points below 256 (Latin-1): every literal of \<open>script.py\<close>
  lies in that range, and the order of \<^typ>\<open>char\<close> is the order of code points, which
  is how Python compares strings.
\<close>

text \<open>\<open>str.lower\<close> on Latin-1: \<open>A-Z\<close> and \<open>U+00C0-U+00DE\<close> (without \<open>U+00D7\<close>) move up by 32.\<close>

definition lower_char :: "char \<Rightarrow> char" where
  "lower_char c =
     (let n = (of_char c :: nat)
      in if (65 \<le> n \<and> n \<le> 90) \<or> (192 \<le> n \<and> n \<le> 222 \<and> n \<noteq> 215)
         then char_of (n + 32) else c)"

definition lower :: "string \<Rightarrow> string" where
  "lower s = map lower_char s"

text \<open>\<open>s.split(sep)\<close> for a separator of one character: never the empty list.\<close>

fun str_split :: "char \<Rightarrow> string \<Rightarrow> string list" where
  "str_split sep [] = [[]]"
| "str_split sep (c # cs) =
     (if c = sep then [] # str_split sep cs
      else (case str_split sep cs of
              [] \<Rightarrow> [[c]]
            | w # ws \<Rightarrow> (c # w) # ws))"

text \<open>
  \<open>s.replace(old, new)\<close>: the occurrences of \<open>old\<close> are found from the left and do not
  overlap. With an empty \<open>old\<close> Python puts \<open>new\<close> before every character and at the end.
\<close>

fun replace :: "string \<Rightarrow> string \<Rightarrow> string \<Rightarrow> string" where
  "replace old new [] = (if old = [] then new else [])"
| "replace old new (c # cs) =
     (if old = [] then new @ c # replace old new cs
      else if prefix old (c # cs) then new @ replace old new (drop (length old - 1) cs)
      else c # replace old new cs)"

text \<open>\<open>sep.join(xs)\<close>.\<close>

fun str_join :: "string \<Rightarrow> string list \<Rightarrow> string" where
  "str_join sep [] = []"
| "str_join sep [x] = x"
| "str_join sep (x # y # ys) = x @ sep @ str_join sep (y # ys)"

text \<open>\<open>str(n)\<close> for the integers that the f-strings print.\<close>

definition digit_char :: "nat \<Rightarrow> char" where
  "digit_char d = char_of (48 + d)"

function str_nat :: "nat \<Rightarrow> string" where
  "str_nat n = (if n < 10 then [digit_char n] else str_nat (n div 10) @ [digit_char (n mod 10)])"
  by pat_completeness auto
termination
  by (relation "measure id") auto

declare str_nat.simps [simp del]

definition str_int :: "int \<Rightarrow> string" where
  "str_int k = (if k < 0 then CHR ''-'' # str_nat (nat (- k)) else str_nat (nat k))"

section \<open>Paths (\<open>posixpath\<close>)\<close>

text \<open>\<open>s.rfind(c)\<close>: the index of the last occurrence of \<open>c\<close>, or \<open>-1\<close>.\<close>

fun rfind :: "char \<Rightarrow> string \<Rightarrow> int" where
  "rfind c [] = - 1"
| "rfind c (x # xs) =
     (let r = rfind c xs
      in if r \<ge> 0 then r + 1 else if x = c then 0 else - 1)"

text \<open>\<open>os.path.join(a, b)\<close> with two arguments.\<close>

definition path_join :: "string \<Rightarrow> string \<Rightarrow> string" where
  "path_join a b =
     (if prefix ''/'' b then b
      else if a = [] \<or> suffix ''/'' a then a @ b
      else a @ ''/'' @ b)"

text \<open>\<open>os.path.basename(p)\<close>: \<open>p[p.rfind('/') + 1:]\<close>.\<close>

definition basename :: "string \<Rightarrow> string" where
  "basename p = drop (nat (rfind CHR ''/'' p + 1)) p"

text \<open>
  \<open>os.path.splitext(p)\<close>: the extension starts at the last dot, when that dot comes after
  the last separator and after some character of the file name that is not a dot.
\<close>

definition splitext :: "string \<Rightarrow> string \<times> string" where
  "splitext p =
     (let sepIndex = rfind CHR ''/'' p;
          dotIndex = rfind CHR ''.'' p
      in if dotIndex > sepIndex \<and>
            list_ex (\<lambda>k. p ! k \<noteq> CHR ''.'') [nat (sepIndex + 1) ..< nat dotIndex]
         then (take (nat dotIndex) p, drop (nat dotIndex) p)
         else (p, []))"

section \<open>The job request\<close>

text \<open>
  \<open>ffmpeg_params\<close> is a dictionary with the eight keys of \<open>DEFAULT_FFMPEG_CONFIG\<close>; the
  front end always passes all of them, so it is a record.
\<close>

record ffmpeg_config =
  VIDEO_CODEC_AMF :: string
  RC_MODE :: string
  QP_VALUE :: string
  BITRATE_VBR :: string
  MAX_BITRATE_VBR :: string
  QUALITY_PRESET :: string
  AUDIO_CODEC :: string
  AUDIO_BITRATE :: string

definition DEFAULT_FFMPEG_CONFIG :: ffmpeg_config where
  "DEFAULT_FFMPEG_CONFIG =
     \<lparr>VIDEO_CODEC_AMF = ''h264_amf'', RC_MODE = ''cqp'', QP_VALUE = ''23'',
      BITRATE_VBR = ''5M'', MAX_BITRATE_VBR = ''8M'', QUALITY_PRESET = ''quality'',
      AUDIO_CODEC = ''aac'', AUDIO_BITRATE = ''192k''\<rparr>"

text \<open>The signals of \<open>ConversionWorker\<close>, in the order of their emission.\<close>

datatype event =
    Progress string
  | OverallProgress nat nat
  | Finished string
  | CriticalError string

section \<open>Messages\<close>

definition msg_makedirs_failed :: "string \<Rightarrow> string \<Rightarrow> string" where \<comment> \<open>line 53\<close>
  "msg_makedirs_failed d e =
     ''Erro cr'' @ [CHR 0xED] @ ''tico ao criar diret'' @ [CHR 0xF3] @ ''rio de sa'' @
     [CHR 0xED] @ ''da '' @ [CHR 0x27] @ d @ [CHR 0x27] @ '': '' @ e"

definition msg_no_formats :: "string" where \<comment> \<open>line 58\<close>
  "msg_no_formats = ''Nenhum formato de entrada especificado.''"

definition msg_no_formats_finished :: "string" where \<comment> \<open>line 59\<close>
  "msg_no_formats_finished = ''Nenhum formato de entrada para procurar.''"

definition msg_searching :: "string list \<Rightarrow> string \<Rightarrow> string" where \<comment> \<open>line 62\<close>
  "msg_searching exts d =
     ''Procurando por arquivos com extens'' @ [CHR 0xF5] @ ''es: '' @
     str_join '', '' exts @ '' em '' @ [CHR 0x27] @ d @ [CHR 0x27]"

definition msg_input_dir_not_found :: "string \<Rightarrow> string" where \<comment> \<open>line 74\<close>
  "msg_input_dir_not_found d =
     ''Erro: Diret'' @ [CHR 0xF3] @ ''rio de entrada n'' @ [CHR 0xE3] @
     ''o encontrado: '' @ d"

definition msg_listing_failed :: "string \<Rightarrow> string" where \<comment> \<open>line 77\<close>
  "msg_listing_failed e =
     ''Erro ao listar arquivos no diret'' @ [CHR 0xF3] @ ''rio de entrada: '' @ e"

definition msg_no_files :: "string list \<Rightarrow> string \<Rightarrow> string" where \<comment> \<open>line 84\<close>
  "msg_no_files exts d =
     ''Nenhum arquivo com os formatos especificados ('' @
     str_join '', '' exts @ '') encontrado em '' @ [CHR 0x27] @ d @
     [CHR 0x27] @ ''.''"

definition msg_no_files_finished :: "string" where \<comment> \<open>line 85\<close>
  "msg_no_files_finished = ''Nenhum arquivo para converter.''"

definition msg_found :: "nat \<Rightarrow> string" where \<comment> \<open>line 88\<close>
  "msg_found n =
     ''Encontrados '' @ str_nat n @ '' arquivo(s) para processar.''"

definition msg_cancelled_by_user :: "string" where \<comment> \<open>line 97\<close>
  "msg_cancelled_by_user =
     ''Convers'' @ [CHR 0xE3] @ ''o cancelada pelo usu'' @ [CHR 0xE1] @ ''rio.''"

definition msg_converting :: "nat \<Rightarrow> nat \<Rightarrow> string \<Rightarrow> string" where \<comment> \<open>line 108\<close>
  "msg_converting i tot name =
     ''['' @ str_nat (i + 1) @ ''/'' @ str_nat tot @ ''] Convertendo: '' @
     name @ ''...''"

definition msg_rc_fallback :: "string \<Rightarrow> string" where \<comment> \<open>line 120\<close>
  "msg_rc_fallback mode =
     ''Modo RC '' @ [CHR 0x27] @ mode @ [CHR 0x27] @ '' desconhecido/inv'' @
     [CHR 0xE1] @ ''lido. Usando CQP (QP 23), quality '' @ [CHR 0x27] @ ''quality'' @
     [CHR 0x27] @ ''.''"

definition msg_interrupted :: "string \<Rightarrow> string" where \<comment> \<open>line 137\<close>
  "msg_interrupted name =
     ''Convers'' @ [CHR 0xE3] @ ''o de '' @ name @ '' interrompida.''"

definition msg_success :: "string \<Rightarrow> string" where \<comment> \<open>line 139\<close>
  "msg_success name = ''Sucesso: '' @ name"

definition msg_failed :: "string \<Rightarrow> int \<Rightarrow> string" where \<comment> \<open>line 142\<close>
  "msg_failed name code =
     ''Erro ao converter '' @ name @ '' (Status: '' @ str_int code @
     '').''"

definition msg_stdout :: "string \<Rightarrow> string" where \<comment> \<open>line 143\<close>
  "msg_stdout out =
     ''FFmpeg stdout (pode ser longo):'' @ [CHR 0x0A] @ take 1000 out @ ''...''"

definition msg_stderr :: "string \<Rightarrow> string" where \<comment> \<open>line 144\<close>
  "msg_stderr err =
     ''FFmpeg stderr (pode ser longo):'' @ [CHR 0x0A] @ take 1000 err @ ''...''"

definition msg_engine_not_found :: "string" where \<comment> \<open>line 147\<close>
  "msg_engine_not_found =
     ''Erro Cr'' @ [CHR 0xED] @ ''tico: '' @ [CHR 0x27] @ ''ffmpeg'' @ [CHR 0x27] @
     '' n'' @ [CHR 0xE3] @ ''o encontrado. Verifique a instala'' @ [CHR 0xE7] @
     [CHR 0xE3] @ ''o e o PATH.''"

definition msg_exception :: "string \<Rightarrow> string \<Rightarrow> string" where \<comment> \<open>line 151\<close>
  "msg_exception name e =
     ''Exce'' @ [CHR 0xE7] @ [CHR 0xE3] @ ''o durante convers'' @ [CHR 0xE3] @ ''o de '' @
     name @ '': '' @ e"

definition msg_summary_completed :: "nat \<Rightarrow> nat \<Rightarrow> string" where \<comment> \<open>line 159\<close>
  "msg_summary_completed succeeded tot =
     ''Convers'' @ [CHR 0xE3] @ ''o conclu'' @ [CHR 0xED] @ ''da. '' @
     str_nat succeeded @ ''/'' @ str_nat tot @
     '' arquivos convertidos com sucesso.''"

definition msg_summary_cancelled :: "nat \<Rightarrow> nat \<Rightarrow> string" where \<comment> \<open>line 161\<close>
  "msg_summary_cancelled succeeded processed =
     ''Convers'' @ [CHR 0xE3] @ ''o cancelada. '' @ str_nat succeeded @ ''/'' @
     str_nat processed @ '' arquivos processados antes do cancelamento.''"

definition msg_stop_received :: "string" where \<comment> \<open>line 166\<close>
  "msg_stop_received = ''Sinal de cancelamento recebido...''"

definition msg_stop_trying :: "string" where \<comment> \<open>line 169\<close>
  "msg_stop_trying =
     ''Tentando interromper o processo FFmpeg atual...''"

definition msg_stop_kill :: "string" where \<comment> \<open>line 174\<close>
  "msg_stop_kill =
     ''FFmpeg n'' @ [CHR 0xE3] @ ''o terminou, for'' @ [CHR 0xE7] @ ''ando interrup'' @
     [CHR 0xE7] @ [CHR 0xE3] @ ''o (kill)...''"

definition msg_stop_error :: "string \<Rightarrow> string" where \<comment> \<open>line 177\<close>
  "msg_stop_error e = ''Erro ao tentar parar o processo: '' @ e"

section \<open>Output name and command line (lines 101-125)\<close>

definition video_codec_name_for_file :: "string \<Rightarrow> string" where
  "video_codec_name_for_file codec = replace ''h'' ''x'' (replace ''_amf'' [] codec)"

definition filename_no_ext :: "string \<Rightarrow> string" where
  "filename_no_ext file_path = fst (splitext (basename file_path))"

definition output_filename :: "ffmpeg_config \<Rightarrow> string \<Rightarrow> string" where
  "output_filename cfg file_path =
     filename_no_ext file_path @ ''_jellyfin_'' @
     video_codec_name_for_file (VIDEO_CODEC_AMF cfg) @ ''_gpu.mp4''"

definition output_file_path :: "string \<Rightarrow> ffmpeg_config \<Rightarrow> string \<Rightarrow> string" where
  "output_file_path output_dir cfg file_path = path_join output_dir (output_filename cfg file_path)"

text \<open>The list given to \<open>extend\<close> in the branch on \<open>RC_MODE\<close>.\<close>

definition rc_args :: "ffmpeg_config \<Rightarrow> string list" where
  "rc_args cfg =
     (if RC_MODE cfg = ''cqp'' then
        [''-c:v'', VIDEO_CODEC_AMF cfg, ''-rc'', RC_MODE cfg,
         ''-qp'', QP_VALUE cfg, ''-quality'', QUALITY_PRESET cfg]
      else if RC_MODE cfg = ''vbr_peak'' then
        [''-c:v'', VIDEO_CODEC_AMF cfg, ''-rc'', RC_MODE cfg,
         ''-b:v'', BITRATE_VBR cfg, ''-maxrate'', MAX_BITRATE_VBR cfg,
         ''-quality'', QUALITY_PRESET cfg]
      else
        [''-c:v'', VIDEO_CODEC_AMF cfg, ''-rc'', ''cqp'',
         ''-qp'', ''23'', ''-quality'', ''quality''])"

text \<open>The notice of the last branch: the only message the builder emits.\<close>

definition rc_notice :: "ffmpeg_config \<Rightarrow> event list" where
  "rc_notice cfg =
     (if RC_MODE cfg = ''cqp'' then []
      else if RC_MODE cfg = ''vbr_peak'' then []
      else [Progress (msg_rc_fallback (RC_MODE cfg))])"

definition ffmpeg_cmd_list :: "string \<Rightarrow> ffmpeg_config \<Rightarrow> string \<Rightarrow> string list" where
  "ffmpeg_cmd_list output_dir cfg file_path =
     [''ffmpeg'', ''-i'', file_path] @ rc_args cfg @
     [''-c:a'', AUDIO_CODEC cfg, ''-b:a'', AUDIO_BITRATE cfg,
      ''-movflags'', ''+faststart'', ''-y'', output_file_path output_dir cfg file_path]"


section \<open>The worker object and the file scan (lines 36-88)\<close>

record worker =
  input_dir :: string
  output_dir :: string
  ffmpeg_params :: ffmpeg_config
  target_extensions :: "string list"

text \<open>\<open>__init__\<close>: the extensions are lower-cased and the empty ones dropped.\<close>

definition ConversionWorker ::
  "string \<Rightarrow> string \<Rightarrow> ffmpeg_config \<Rightarrow> string list \<Rightarrow> worker" where
  "ConversionWorker in_dir out_dir params target_extensions_str_list =
     \<lparr>input_dir = in_dir, output_dir = out_dir, ffmpeg_params = params,
      target_extensions = map lower (filter (\<lambda>ext. ext \<noteq> []) target_extensions_str_list)\<rparr>"

definition file_ext_lower :: "string \<Rightarrow> string" where \<comment> \<open>line 68\<close>
  "file_ext_lower filename =
     (if CHR ''.'' \<in> set filename then lower (last (str_split CHR ''.'' filename)) else [])"

text \<open>
  The loop of lines 66-72 over the listing, with \<open>os.path.isfile\<close> as a predicate on
  full paths, and line 81: \<open>sorted(list(set(files_to_convert)))\<close>.
\<close>

definition matching_files ::
  "string \<Rightarrow> string list \<Rightarrow> (string \<Rightarrow> bool) \<Rightarrow> string list \<Rightarrow> string list" where
  "matching_files in_dir exts is_file all_files_in_dir =
     map (path_join in_dir)
       (filter (\<lambda>filename. file_ext_lower filename \<in> set exts \<and>
                            is_file (path_join in_dir filename)) all_files_in_dir)"

definition files_to_convert ::
  "string \<Rightarrow> string list \<Rightarrow> (string \<Rightarrow> bool) \<Rightarrow> string list \<Rightarrow> string list" where
  "files_to_convert in_dir exts is_file all_files_in_dir =
     sorted_list_of_set (set (matching_files in_dir exts is_file all_files_in_dir))"

section \<open>The environment of a run\<close>

text \<open>
  Everything outside the worker is a parameter of the run: the answers of the file system,
  what becomes of each file's \<open>ffmpeg\<close> process, and when \<open>stop_conversions\<close> is
  called from the other thread. A process that is launched always exits: a run in which
  \<open>communicate()\<close> blocks for ever is not a value of this model.
\<close>

datatype os_error = FileNotFoundError | OtherError string

text \<open>
  What \<open>os.makedirs\<close> can raise at line 51: an \<open>OSError\<close>, which line 52 catches, or an
  exception of another class (a \<open>ValueError\<close> for a path with a NUL character), which
  nothing catches: it leaves \<open>run_conversions\<close>.
\<close>

datatype makedirs_error = OSError string | Uncaught string

text \<open>What \<open>terminate()\<close> and \<open>wait(timeout=2)\<close> do in \<open>stop_conversions\<close>.\<close>

datatype term_result = TermExited | TermTimeout | TermError string

text \<open>
  What the \<open>try\<close> block of lines 127-144 meets:
  \<^item> \<open>EngineNotFound\<close>: \<open>Popen\<close> raises \<open>FileNotFoundError\<close>;
  \<^item> \<open>LaunchError e\<close>: \<open>Popen\<close> raises another exception, no process exists;
  \<^item> \<open>Exited code stdout stderr\<close>: the process ran and the worker read its return code;
  \<^item> \<open>CommError e\<close>: an exception after the process was started (among them the
    \<open>AttributeError\<close> of line 133 when \<open>stop_conversions\<close> has already cleared
    \<open>current_process\<close>).
\<close>

datatype proc_result =
    EngineNotFound
  | LaunchError string
  | Exited int string string
  | CommError string

text \<open>
  The places of one iteration at which a call of \<open>stop_conversions\<close> can fall:
  before the test of line 96, while the process is live, and after line 134 but before
  the test of line 136.
\<close>

record file_env =
  stop_before :: bool
  proc :: proc_result
  stop_during :: "term_result option"
  stop_after :: bool

record world =
  makedirs :: "string \<Rightarrow> makedirs_error option"
  listdir :: "string \<Rightarrow> os_error + string list"
  isfile :: "string \<Rightarrow> bool"
  sched :: "nat \<Rightarrow> file_env"
  stop_at_end :: bool

text \<open>
  \<open>makedirs w d = None\<close>: \<open>os.makedirs(d, exist_ok=True)\<close> returns, and \<open>d\<close> is then
  a directory; \<open>Some (OSError e)\<close> and \<open>Some (Uncaught e)\<close>: it raises an exception with
  text \<open>e\<close>, of class \<open>OSError\<close> or of another class. \<open>sched w i\<close> is the
  environment of the \<open>i\<close>-th file of the sorted list, and \<open>stop_at_end\<close> a call of
  \<open>stop_conversions\<close> between the last iteration and the test of line 158.
\<close>

section \<open>The state of the worker and \<open>stop_conversions\<close> (lines 164-178)\<close>

record worker_state =
  is_running :: bool
  current_process :: "string list option"
  files_processed_count :: nat
  files_succeeded_count :: nat

definition stop_conversions :: "term_result \<Rightarrow> worker_state \<Rightarrow> event list \<times> worker_state" where
  "stop_conversions tr st =
     ([Progress msg_stop_received] @
      (case current_process st of
         None \<Rightarrow> []
       | Some p \<Rightarrow>
           Progress msg_stop_trying #
           (case tr of
              TermExited \<Rightarrow> []
            | TermTimeout \<Rightarrow> [Progress msg_stop_kill]
            | TermError e \<Rightarrow> [Progress (msg_stop_error e)])),
      st\<lparr>is_running := False, current_process := None\<rparr>)"

section \<open>One file (lines 100-156)\<close>

text \<open>The three branches of lines 136-144, named as the specification names them.\<close>

datatype outcome = Interrupted | Success | Failed int

definition classify :: "bool \<Rightarrow> int \<Rightarrow> outcome" where
  "classify running return_code =
     (if \<not> running \<and> return_code \<noteq> 0 then Interrupted
      else if return_code = 0 then Success
      else Failed return_code)"

definition report_outcome ::
  "string \<Rightarrow> string \<Rightarrow> int \<Rightarrow> string \<Rightarrow> string \<Rightarrow> worker_state \<Rightarrow> event list \<times> worker_state" where
  "report_outcome filename_with_ext out_name return_code stdout stderr st =
     (case classify (is_running st) return_code of
        Interrupted \<Rightarrow> ([Progress (msg_interrupted filename_with_ext)], st)
      | Success \<Rightarrow>
          ([Progress (msg_success out_name)],
           st\<lparr>files_succeeded_count := files_succeeded_count st + 1\<rparr>)
      | Failed code \<Rightarrow>
          ([Progress (msg_failed filename_with_ext code)] @
           (if stdout \<noteq> [] then [Progress (msg_stdout stdout)] else []) @
           (if stderr \<noteq> [] then [Progress (msg_stderr stderr)] else []),
           st))"

text \<open>A call of \<open>stop_conversions\<close> from the other thread, when the schedule has one.\<close>

definition maybe_stop :: "term_result option \<Rightarrow> worker_state \<Rightarrow> event list \<times> worker_state" where
  "maybe_stop req st = (case req of None \<Rightarrow> ([], st) | Some tr \<Rightarrow> stop_conversions tr st)"

text \<open>
  The \<open>try\<close> statement of lines 127-154. The result is the events, the state, and whether
  the worker has left \<open>run_conversions\<close> through the \<open>return\<close> of line 149.
\<close>

definition run_process ::
  "string list \<Rightarrow> string \<Rightarrow> string \<Rightarrow> file_env \<Rightarrow> worker_state
     \<Rightarrow> event list \<times> worker_state \<times> bool" where
  "run_process cmd filename_with_ext out_name fe st =
     (case proc fe of
        EngineNotFound \<Rightarrow>
          ([CriticalError msg_engine_not_found], st\<lparr>is_running := False\<rparr>, True)
      | LaunchError e \<Rightarrow>
          ([Progress (msg_exception filename_with_ext e)], st, False)
      | Exited return_code stdout stderr \<Rightarrow>
          (let (ev1, st1) = maybe_stop (stop_during fe) (st\<lparr>current_process := Some cmd\<rparr>);
               st2 = st1\<lparr>current_process := None\<rparr>;
               (ev2, st3) = maybe_stop (if stop_after fe then Some TermExited else None) st2;
               (ev3, st4) = report_outcome filename_with_ext out_name return_code stdout stderr st3
           in (ev1 @ ev2 @ ev3, st4, False))
      | CommError e \<Rightarrow>
          (let (ev1, st1) = maybe_stop (stop_during fe) (st\<lparr>current_process := Some cmd\<rparr>);
               st2 = (if current_process st1 \<noteq> None then st1\<lparr>current_process := None\<rparr> else st1)
           in (ev1 @ [Progress (msg_exception filename_with_ext e)], st2, False)))"

text \<open>The body of the loop after the test of the run flag, up to line 154.\<close>

definition convert_file ::
  "string \<Rightarrow> ffmpeg_config \<Rightarrow> nat \<Rightarrow> nat \<Rightarrow> string \<Rightarrow> file_env \<Rightarrow> worker_state
     \<Rightarrow> event list \<times> worker_state \<times> bool" where
  "convert_file out_dir cfg total_files i file_path fe st =
     (let st1 = st\<lparr>files_processed_count := files_processed_count st + 1\<rparr>;
          filename_with_ext = basename file_path;
          (ev, st2, returned) =
            run_process (ffmpeg_cmd_list out_dir cfg file_path) filename_with_ext
              (output_filename cfg file_path) fe st1
      in (Progress (msg_converting i total_files filename_with_ext) # rc_notice cfg @ ev,
          st2, returned))"

section \<open>The loop and \<open>run_conversions\<close> (lines 46-162)\<close>

text \<open>
  The \<open>for\<close> loop of line 95 over the files that are left, \<open>i\<close> being the index of the
  first of them. The result is the events, the commands given to \<open>Popen\<close>, the state at
  the end, and whether the worker returned at line 149.
\<close>

fun conversion_loop ::
  "string \<Rightarrow> ffmpeg_config \<Rightarrow> (nat \<Rightarrow> file_env) \<Rightarrow> nat \<Rightarrow> nat \<Rightarrow> string list \<Rightarrow> worker_state
     \<Rightarrow> event list \<times> string list list \<times> worker_state \<times> bool" where
  "conversion_loop out_dir cfg env total_files i [] st = ([], [], st, False)"
| "conversion_loop out_dir cfg env total_files i (file_path # rest) st =
     (let (ev0, st0) = maybe_stop (if stop_before (env i) then Some TermExited else None) st
      in if \<not> is_running st0 then (ev0 @ [Progress msg_cancelled_by_user], [], st0, False)
         else
           (let (ev1, st1, returned) = convert_file out_dir cfg total_files i file_path (env i) st0;
                cmd = ffmpeg_cmd_list out_dir cfg file_path
            in if returned then (ev0 @ ev1, [cmd], st1, True)
               else
                 (let (ev2, cmds, st2, returned2) =
                        conversion_loop out_dir cfg env total_files (i + 1) rest st1
                  in (ev0 @ ev1 @ OverallProgress (i + 1) total_files # ev2,
                      cmd # cmds, st2, returned2))))"

text \<open>
  The calls that leave the process, in their order, and the result of a run: the events
  emitted, the calls made, the directories made, and the exception that left
  \<open>run_conversions\<close> uncaught, if one did.
\<close>

datatype syscall = MakeDirs string | ListDir string | Popen "string list"

record run_result =
  events :: "event list"
  calls :: "syscall list"
  made_dirs :: "string list"
  raised :: "string option"

definition summary :: "nat \<Rightarrow> worker_state \<Rightarrow> string" where \<comment> \<open>lines 158-161\<close>
  "summary total_files st =
     (if is_running st then msg_summary_completed (files_succeeded_count st) total_files
      else msg_summary_cancelled (files_succeeded_count st) (files_processed_count st))"

definition initial_state :: worker_state where \<comment> \<open>lines 42, 43, 47, 91, 92\<close>
  "initial_state =
     \<lparr>is_running = True, current_process = None,
      files_processed_count = 0, files_succeeded_count = 0\<rparr>"

definition run_conversions :: "worker \<Rightarrow> world \<Rightarrow> run_result" where
  "run_conversions self w =
     (case makedirs w (output_dir self) of
        Some (OSError e) \<Rightarrow>
          \<lparr>events = [CriticalError (msg_makedirs_failed (output_dir self) e)],
           calls = [MakeDirs (output_dir self)], made_dirs = [], raised = None\<rparr>
      | Some (Uncaught e) \<Rightarrow>
          \<lparr>events = [], calls = [MakeDirs (output_dir self)], made_dirs = [], raised = Some e\<rparr>
      | None \<Rightarrow>
          if target_extensions self = [] then
            \<lparr>events = [Progress msg_no_formats, Finished msg_no_formats_finished],
             calls = [MakeDirs (output_dir self)], made_dirs = [output_dir self], raised = None\<rparr>
          else
            (let searching = Progress (msg_searching (target_extensions self) (input_dir self));
                 sys = [MakeDirs (output_dir self), ListDir (input_dir self)]
             in case listdir w (input_dir self) of
                  Inl FileNotFoundError \<Rightarrow>
                    \<lparr>events = [searching, CriticalError (msg_input_dir_not_found (input_dir self))],
                     calls = sys, made_dirs = [output_dir self], raised = None\<rparr>
                | Inl (OtherError e) \<Rightarrow>
                    \<lparr>events = [searching, CriticalError (msg_listing_failed e)],
                     calls = sys, made_dirs = [output_dir self], raised = None\<rparr>
                | Inr all_files_in_dir \<Rightarrow>
                    (let files = files_to_convert (input_dir self) (target_extensions self)
                                   (isfile w) all_files_in_dir
                     in if files = [] then
                          \<lparr>events = [searching,
                                     Progress (msg_no_files (target_extensions self) (input_dir self)),
                                     Finished msg_no_files_finished],
                           calls = sys, made_dirs = [output_dir self], raised = None\<rparr>
                        else
                          (let total_files = length files;
                               (ev, cmds, st, returned) =
                                 conversion_loop (output_dir self) (ffmpeg_params self) (sched w)
                                   total_files 0 files initial_state;
                               (ev_stop, st') =
                                 maybe_stop (if stop_at_end w then Some TermExited else None) st;
                               start = [searching, Progress (msg_found total_files),
                                        OverallProgress 0 total_files]
                           in \<lparr>events =
                                  (if returned then start @ ev
                                   else start @ ev @ ev_stop @ [Finished (summary total_files st')]),
                                calls = sys @ map Popen cmds, made_dirs = [output_dir self], raised = None\<rparr>))))"

section \<open>Notions used to state the properties\<close>

text \<open>
  The command line is the program name followed by options, each a name followed by its
  value (\<open>-y\<close> is followed by the output path). \<open>flags\<close> are the arguments in the place
  of a name: a configured value is never one of them, whatever its text.
\<close>

fun every_other :: "'a list \<Rightarrow> 'a list" where
  "every_other [] = []"
| "every_other [x] = [x]"
| "every_other (x # y # zs) = x # every_other zs"

definition flags :: "string list \<Rightarrow> string list" where
  "flags cmd = every_other (tl cmd)"

text \<open>
  The derivation of the short codec name in the words of the specification: strip the
  suffix \<open>_amf\<close>, then replace every \<open>h\<close> by \<open>x\<close>.
\<close>

definition strip_suffix :: "string \<Rightarrow> string \<Rightarrow> string" where
  "strip_suffix suf s = (if suffix suf s then take (length s - length suf) s else s)"

definition h_to_x :: "char \<Rightarrow> char" where
  "h_to_x c = (if c = CHR ''h'' then CHR ''x'' else c)"

definition spec_codec_short_name :: "string \<Rightarrow> string" where
  "spec_codec_short_name codec = map h_to_x (strip_suffix ''_amf'' codec)"

text \<open>The kinds of events: log messages, the events that end a stream, overall progress.\<close>

fun is_progress :: "event \<Rightarrow> bool" where
  "is_progress (Progress s) = True"
| "is_progress e = False"

fun is_terminal :: "event \<Rightarrow> bool" where
  "is_terminal (Finished s) = True"
| "is_terminal (CriticalError s) = True"
| "is_terminal e = False"

fun is_finished :: "event \<Rightarrow> bool" where
  "is_finished (Finished s) = True"
| "is_finished e = False"

fun is_critical :: "event \<Rightarrow> bool" where
  "is_critical (CriticalError s) = True"
| "is_critical e = False"

fun is_overall :: "event \<Rightarrow> bool" where
  "is_overall (OverallProgress d t) = True"
| "is_overall e = False"

text \<open>No call of \<open>stop_conversions\<close> falls into the iteration of a file.\<close>

definition not_cancelled :: "file_env \<Rightarrow> bool" where
  "not_cancelled fe = (\<not> stop_before fe \<and> stop_during fe = None \<and> \<not> stop_after fe)"

definition engine_found :: "file_env \<Rightarrow> bool" where
  "engine_found fe = (proc fe \<noteq> EngineNotFound)"

definition exited_zero :: "file_env \<Rightarrow> bool" where
  "exited_zero fe = (case proc fe of Exited code out err \<Rightarrow> code = 0 | _ \<Rightarrow> False)"

section \<open>A batch of three files\<close>

text \<open>
  The directory \<open>/in\<close> lists \<open>c.mp4\<close>, \<open>b.MKV\<close>, \<open>a.mp4\<close> and \<open>notes.txt\<close>, the
  extensions are \<open>mp4\<close> and \<open>MKV\<close>. In \<open>example_world\<close> nobody cancels and the second
  process exits with code 1; in \<open>cancel_world code\<close> the second process is live when
  \<open>stop_conversions\<close> is called and exits with \<open>code\<close>; in \<open>no_engine_world\<close> there is
  no \<open>ffmpeg\<close>.
\<close>

definition fe_ok :: file_env where
  "fe_ok = \<lparr>stop_before = False, proc = Exited 0 [] [], stop_during = None, stop_after = False\<rparr>"

definition example_worker :: worker where
  "example_worker = ConversionWorker ''/in'' ''/out'' DEFAULT_FFMPEG_CONFIG [''mp4'', ''MKV'']"

definition example_world :: world where
  "example_world =
     \<lparr>makedirs = (\<lambda>d. None),
      listdir = (\<lambda>d. Inr [''c.mp4'', ''b.MKV'', ''a.mp4'', ''notes.txt'']),
      isfile = (\<lambda>p. True),
      sched = (\<lambda>i. if i = 1 then fe_ok\<lparr>proc := Exited 1 [] ''boom''\<rparr> else fe_ok),
      stop_at_end = False\<rparr>"

definition cancel_world :: "int \<Rightarrow> world" where
  "cancel_world code =
     example_world\<lparr>sched := (\<lambda>i. if i = 1
        then fe_ok\<lparr>proc := Exited code [] [], stop_during := Some TermExited\<rparr> else fe_ok)\<rparr>"

text \<open>A job whose output directory has a NUL character, which \<open>os.makedirs\<close> refuses.\<close>

definition nul_worker :: worker where
  "nul_worker =
     ConversionWorker ''/in'' (''/out'' @ [CHR 0x00] @ ''dir'') DEFAULT_FFMPEG_CONFIG [''mp4'']"

definition nul_world :: world where
  "nul_world =
     example_world\<lparr>makedirs := (\<lambda>d. if CHR 0x00 \<in> set d
        then Some (Uncaught ''embedded null byte'') else None)\<rparr>"

definition no_engine_world :: world where
  "no_engine_world = example_world\<lparr>sched := (\<lambda>i. fe_ok\<lparr>proc := EngineNotFound\<rparr>)\<rparr>"


section \<open>Strings and paths\<close>

lemma replace_char: "replace [a] [b] s = map (\<lambda>c. if c = a then b else c) s"
  by (induction s) auto

lemma replace_amf_stem:
  "\<not> sublist ''_amf'' stem \<Longrightarrow> replace ''_amf'' [] (stem @ ''_amf'') = stem"
proof (induction stem)
  case Nil
  then show ?case by simp
next
  case (Cons c cs)
  have np: "\<not> prefix ''_amf'' (c # cs)"
    using Cons.prems by (meson prefix_imp_sublist)
  have ns: "\<not> sublist ''_amf'' cs"
    using Cons.prems by (meson sublist_Cons_right)
  have "\<not> prefix ''_amf'' (c # cs @ ''_amf'')"
  proof
    assume a: "prefix ''_amf'' (c # cs @ ''_amf'')"
    show False
    proof (cases cs)
      case Nil
      with a show False by simp
    next
      case (Cons d ds)
      note c1 = this
      show False
      proof (cases ds)
        case Nil
        with a c1 show False by simp
      next
        case (Cons e es)
        note c2 = this
        show False
        proof (cases es)
          case Nil
          with a c1 c2 show False by simp
        next
          case (Cons f fs)
          with a c1 c2 np show False by simp
        qed
      qed
    qed
  qed
  then show ?case
    using Cons.IH [OF ns] by auto
qed

lemma suffix_mp4: "suffix ''.mp4'' (output_filename cfg p)"
  unfolding output_filename_def suffix_def by (rule exI [of _ "filename_no_ext p @ ''_jellyfin_'' @ video_codec_name_for_file (VIDEO_CODEC_AMF cfg) @ ''_gpu''"]) simp

lemma rfind_none: "c \<notin> set s \<Longrightarrow> rfind c s = - 1"
  by (induction s) (auto simp: Let_def)

lemma rfind_append_fresh:
  "c \<notin> set t \<Longrightarrow> rfind c (s @ c # t) = int (length s)"
  by (induction s) (auto simp: Let_def rfind_none)

lemma basename_plain: "CHR ''/'' \<notin> set f \<Longrightarrow> basename f = f"
  by (simp add: basename_def rfind_none)

lemma basename_after_sep: "CHR ''/'' \<notin> set f \<Longrightarrow> basename (q @ CHR ''/'' # f) = f"
  by (simp add: basename_def rfind_append_fresh nat_add_distrib)

lemma basename_path_join:
  assumes "CHR ''/'' \<notin> set f"
  shows "basename (path_join d f) = f"
proof -
  have nf: "\<not> prefix ''/'' f"
    using assms by (cases f) auto
  consider "d = []" | q where "d = q @ ''/''" | "d \<noteq> []" "\<not> suffix ''/'' d"
    by (auto simp: suffix_def)
  then show ?thesis
  proof cases
    case 1
    then show ?thesis using nf assms by (simp add: path_join_def basename_plain)
  next
    case 2
    then have "path_join d f = q @ CHR ''/'' # f"
      using nf by (simp add: path_join_def)
    then show ?thesis using assms by (simp add: basename_after_sep)
  next
    case 3
    then have "path_join d f = d @ CHR ''/'' # f"
      using nf by (simp add: path_join_def)
    then show ?thesis using assms by (simp add: basename_after_sep)
  qed
qed

section \<open>The command line\<close>

lemma flags_cqp:
  "RC_MODE cfg = ''cqp'' \<Longrightarrow> flags (ffmpeg_cmd_list out cfg p) =
     [''-i'', ''-c:v'', ''-rc'', ''-qp'', ''-quality'', ''-c:a'', ''-b:a'', ''-movflags'', ''-y'']"
  by (simp add: flags_def ffmpeg_cmd_list_def rc_args_def)

lemma flags_vbr_peak:
  "RC_MODE cfg = ''vbr_peak'' \<Longrightarrow> flags (ffmpeg_cmd_list out cfg p) =
     [''-i'', ''-c:v'', ''-rc'', ''-b:v'', ''-maxrate'', ''-quality'', ''-c:a'', ''-b:a'',
      ''-movflags'', ''-y'']"
  by (simp add: flags_def ffmpeg_cmd_list_def rc_args_def)

text \<open>
  Claim C4. When the rate-control mode is neither \<open>cqp\<close> nor \<open>vbr_peak\<close>, the command
  line is the one built for the same configuration with mode \<open>cqp\<close>, QP value \<open>23\<close> and
  quality preset \<open>quality\<close> (the video codec and every other field unchanged), and the
  builder logs the fallback notice.
\<close>

theorem fallback_is_cqp_23_quality:
  assumes "RC_MODE cfg \<noteq> ''cqp''" and "RC_MODE cfg \<noteq> ''vbr_peak''"
  shows "ffmpeg_cmd_list out cfg p =
           ffmpeg_cmd_list out
             (cfg\<lparr>RC_MODE := ''cqp'', QP_VALUE := ''23'', QUALITY_PRESET := ''quality''\<rparr>) p
         \<and> rc_notice cfg = [Progress (msg_rc_fallback (RC_MODE cfg))]"
  using assms
  by (simp add: ffmpeg_cmd_list_def rc_args_def rc_notice_def output_file_path_def
      output_filename_def)

theorem fallback_is_cqp_23_quality_witness:
  "RC_MODE (DEFAULT_FFMPEG_CONFIG\<lparr>RC_MODE := ''cbr'', QP_VALUE := ''30''\<rparr>) \<noteq> ''cqp''
   \<and> RC_MODE (DEFAULT_FFMPEG_CONFIG\<lparr>RC_MODE := ''cbr'', QP_VALUE := ''30''\<rparr>) \<noteq> ''vbr_peak''
   \<and> ffmpeg_cmd_list ''/out'' (DEFAULT_FFMPEG_CONFIG\<lparr>RC_MODE := ''cbr'', QP_VALUE := ''30''\<rparr>)
        ''/in/a.mkv''
      = ffmpeg_cmd_list ''/out'' DEFAULT_FFMPEG_CONFIG ''/in/a.mkv''
   \<and> rc_notice (DEFAULT_FFMPEG_CONFIG\<lparr>RC_MODE := ''cbr'', QP_VALUE := ''30''\<rparr>)
      = [Progress (msg_rc_fallback ''cbr'')]"
proof -
  have m: "RC_MODE (DEFAULT_FFMPEG_CONFIG\<lparr>RC_MODE := ''cbr'', QP_VALUE := ''30''\<rparr>) = ''cbr''"
    by simp
  have c: "(DEFAULT_FFMPEG_CONFIG\<lparr>RC_MODE := ''cbr'', QP_VALUE := ''30''\<rparr>)
             \<lparr>RC_MODE := ''cqp'', QP_VALUE := ''23'', QUALITY_PRESET := ''quality''\<rparr>
           = DEFAULT_FFMPEG_CONFIG"
    by (simp add: DEFAULT_FFMPEG_CONFIG_def)
  show ?thesis
    using fallback_is_cqp_23_quality
      [of "DEFAULT_FFMPEG_CONFIG\<lparr>RC_MODE := ''cbr'', QP_VALUE := ''30''\<rparr>" "''/out''" "''/in/a.mkv''"]
    unfolding c by (simp add: m)
qed

text \<open>
  Claim C5. With mode \<open>cqp\<close> the command line has the flags \<open>-qp\<close> and \<open>-quality\<close> and
  neither \<open>-b:v\<close> nor \<open>-maxrate\<close>; with mode \<open>vbr_peak\<close> it has the flags \<open>-b:v\<close> and
  \<open>-maxrate\<close> and no \<open>-qp\<close>. A flag is an argument in the place of an option name, so
  the statement holds for every text of the configured values.
\<close>

theorem rate_control_flags:
  "(RC_MODE cfg = ''cqp'' \<longrightarrow>
      ''-qp'' \<in> set (flags (ffmpeg_cmd_list out cfg p)) \<and>
      ''-quality'' \<in> set (flags (ffmpeg_cmd_list out cfg p)) \<and>
      ''-b:v'' \<notin> set (flags (ffmpeg_cmd_list out cfg p)) \<and>
      ''-maxrate'' \<notin> set (flags (ffmpeg_cmd_list out cfg p))) \<and>
   (RC_MODE cfg = ''vbr_peak'' \<longrightarrow>
      ''-b:v'' \<in> set (flags (ffmpeg_cmd_list out cfg p)) \<and>
      ''-maxrate'' \<in> set (flags (ffmpeg_cmd_list out cfg p)) \<and>
      ''-qp'' \<notin> set (flags (ffmpeg_cmd_list out cfg p)))"
  by (simp add: flags_cqp flags_vbr_peak)

theorem rate_control_flags_witness:
  "RC_MODE DEFAULT_FFMPEG_CONFIG = ''cqp''
   \<and> ''-qp'' \<in> set (flags (ffmpeg_cmd_list ''/out'' DEFAULT_FFMPEG_CONFIG ''/in/a.mkv''))
   \<and> ''-b:v'' \<notin> set (flags (ffmpeg_cmd_list ''/out'' DEFAULT_FFMPEG_CONFIG ''/in/a.mkv''))
   \<and> RC_MODE (DEFAULT_FFMPEG_CONFIG\<lparr>RC_MODE := ''vbr_peak''\<rparr>) = ''vbr_peak''
   \<and> ''-maxrate'' \<in> set (flags (ffmpeg_cmd_list ''/out''
         (DEFAULT_FFMPEG_CONFIG\<lparr>RC_MODE := ''vbr_peak''\<rparr>) ''/in/a.mkv''))
   \<and> ''-qp'' \<notin> set (flags (ffmpeg_cmd_list ''/out''
         (DEFAULT_FFMPEG_CONFIG\<lparr>RC_MODE := ''vbr_peak''\<rparr>) ''/in/a.mkv''))"
proof -
  have a: "RC_MODE DEFAULT_FFMPEG_CONFIG = ''cqp''"
    by (simp add: DEFAULT_FFMPEG_CONFIG_def)
  have b: "RC_MODE (DEFAULT_FFMPEG_CONFIG\<lparr>RC_MODE := ''vbr_peak''\<rparr>) = ''vbr_peak''"
    by simp
  show ?thesis
    using rate_control_flags [of DEFAULT_FFMPEG_CONFIG "''/out''" "''/in/a.mkv''"]
      rate_control_flags [of "DEFAULT_FFMPEG_CONFIG\<lparr>RC_MODE := ''vbr_peak''\<rparr>" "''/out''" "''/in/a.mkv''"]
      a b
    by simp
qed

text \<open>
  Read as plain members of the list: a flag of the command line is a member of it, and the
  flags of the other mode are not members unless a configured value or a path is itself
  that text.
\<close>

lemma every_other_subset: "set (every_other xs) \<subseteq> set xs"
  by (induction xs rule: every_other.induct) auto

lemma flags_subset: "set (flags cmd) \<subseteq> set cmd"
  using every_other_subset [of "tl cmd"] by (cases cmd) (auto simp: flags_def)

lemma cqp_cmd_without_bitrate_text:
  assumes "RC_MODE cfg = ''cqp''" and "flag = ''-b:v'' \<or> flag = ''-maxrate''"
    and "flag \<notin> {p, VIDEO_CODEC_AMF cfg, QP_VALUE cfg, QUALITY_PRESET cfg, AUDIO_CODEC cfg,
                    AUDIO_BITRATE cfg, output_file_path out cfg p}"
  shows "flag \<notin> set (ffmpeg_cmd_list out cfg p)"
  using assms by (auto simp: ffmpeg_cmd_list_def rc_args_def)

lemma vbr_peak_cmd_without_qp_text:
  assumes "RC_MODE cfg = ''vbr_peak''"
    and "''-qp'' \<notin> {p, VIDEO_CODEC_AMF cfg, BITRATE_VBR cfg, MAX_BITRATE_VBR cfg,
                      QUALITY_PRESET cfg, AUDIO_CODEC cfg, AUDIO_BITRATE cfg,
                      output_file_path out cfg p}"
  shows "''-qp'' \<notin> set (ffmpeg_cmd_list out cfg p)"
  using assms by (auto simp: ffmpeg_cmd_list_def rc_args_def)

section \<open>The output name\<close>

text \<open>
  Claim C8. The output name is the base name of the source, \<open>_jellyfin_\<close>, the short codec
  name and \<open>_gpu.mp4\<close>; it ends in \<open>.mp4\<close> whatever the input container; \<open>h264_amf\<close>
  gives the short name \<open>x264\<close>; and two builds from the same base name and the same codec
  identifier give the same name. The base name of a listed file is its name without the
  extension that \<open>splitext\<close> finds, whatever the directory.
\<close>

theorem output_name_shape:
  "output_filename cfg p =
     filename_no_ext p @ ''_jellyfin_'' @ video_codec_name_for_file (VIDEO_CODEC_AMF cfg) @
     ''_gpu.mp4''
   \<and> suffix ''.mp4'' (output_filename cfg p)
   \<and> video_codec_name_for_file ''h264_amf'' = ''x264''
   \<and> (filename_no_ext p = filename_no_ext p' \<and> VIDEO_CODEC_AMF cfg = VIDEO_CODEC_AMF cfg'
        \<longrightarrow> output_filename cfg p = output_filename cfg' p')
   \<and> (CHR ''/'' \<notin> set f \<longrightarrow> filename_no_ext (path_join d f) = fst (splitext f))"
proof -
  have "video_codec_name_for_file ''h264_amf'' = ''x264''"
    by (simp add: video_codec_name_for_file_def)
  then show ?thesis
    using suffix_mp4 [of cfg p]
    by (simp add: output_filename_def filename_no_ext_def basename_path_join)
qed

theorem output_name_shape_witness:
  "filename_no_ext ''/in/clip.mkv'' = filename_no_ext ''/other/clip.avi''
   \<and> VIDEO_CODEC_AMF DEFAULT_FFMPEG_CONFIG
       = VIDEO_CODEC_AMF (DEFAULT_FFMPEG_CONFIG\<lparr>RC_MODE := ''vbr_peak''\<rparr>)
   \<and> output_filename DEFAULT_FFMPEG_CONFIG ''/in/clip.mkv'' = ''clip_jellyfin_x264_gpu.mp4''
   \<and> output_filename (DEFAULT_FFMPEG_CONFIG\<lparr>RC_MODE := ''vbr_peak''\<rparr>) ''/other/clip.avi''
       = ''clip_jellyfin_x264_gpu.mp4''"
proof -
  have a: "filename_no_ext ''/in/clip.mkv'' = ''clip''" by code_simp
  have b: "filename_no_ext ''/other/clip.avi'' = ''clip''" by code_simp
  have c: "VIDEO_CODEC_AMF DEFAULT_FFMPEG_CONFIG = ''h264_amf''"
    by (simp add: DEFAULT_FFMPEG_CONFIG_def)
  show ?thesis
    using output_name_shape [of DEFAULT_FFMPEG_CONFIG "''/in/clip.mkv''" "''/other/clip.avi''"
        "DEFAULT_FFMPEG_CONFIG\<lparr>RC_MODE := ''vbr_peak''\<rparr>" "''clip.mkv''" "''/in''"]
    by (auto simp: a b c)
qed

text \<open>
  Claim C10, as it is written: the short codec name is the identifier without its suffix
  \<open>_amf\<close>, every \<open>h\<close> replaced by \<open>x\<close>. The code removes \<open>_amf\<close> wherever it occurs, so
  the two differ on \<open>h264_amf_amf\<close>: \<open>x264\<close> against \<open>x264_amf\<close>.
\<close>

theorem short_name_not_suffix_strip:
  "video_codec_name_for_file ''h264_amf_amf'' \<noteq> spec_codec_short_name ''h264_amf_amf''"
  by (simp add: video_codec_name_for_file_def spec_codec_short_name_def strip_suffix_def
      h_to_x_def suffix_def)

text \<open>
  Claim C10, amended. On an identifier made of a stem in which \<open>_amf\<close> does not occur,
  followed by the suffix \<open>_amf\<close>, the short codec name is the stem with every \<open>h\<close>
  replaced by \<open>x\<close>, which is what stripping the suffix gives. For \<open>hevc_amf\<close> it is
  \<open>xevc\<close>, and the output name is the base name followed by \<open>_jellyfin_xevc_gpu.mp4\<close>.
\<close>

theorem short_name_of_amf_codec:
  "(\<not> sublist ''_amf'' stem \<longrightarrow>
      video_codec_name_for_file (stem @ ''_amf'') = map h_to_x stem \<and>
      video_codec_name_for_file (stem @ ''_amf'') = spec_codec_short_name (stem @ ''_amf''))
   \<and> video_codec_name_for_file ''hevc_amf'' = ''xevc''
   \<and> (VIDEO_CODEC_AMF cfg = ''hevc_amf'' \<longrightarrow>
        output_filename cfg p = filename_no_ext p @ ''_jellyfin_xevc_gpu.mp4'')"
proof -
  have h: "video_codec_name_for_file ''hevc_amf'' = ''xevc''"
    by (simp add: video_codec_name_for_file_def)
  have s: "spec_codec_short_name (stem @ ''_amf'') = map h_to_x stem"
    by (simp add: spec_codec_short_name_def strip_suffix_def suffix_def)
  have "map h_to_x stem = replace ''h'' ''x'' stem"
    by (simp add: replace_char h_to_x_def [abs_def])
  then show ?thesis
    using h s by (simp add: output_filename_def video_codec_name_for_file_def replace_amf_stem)
qed

theorem short_name_of_amf_codec_witness:
  "\<not> sublist ''_amf'' ''hevc''
   \<and> video_codec_name_for_file (''hevc'' @ ''_amf'') = map h_to_x ''hevc''
   \<and> VIDEO_CODEC_AMF (DEFAULT_FFMPEG_CONFIG\<lparr>VIDEO_CODEC_AMF := ''hevc_amf''\<rparr>) = ''hevc_amf''
   \<and> output_filename (DEFAULT_FFMPEG_CONFIG\<lparr>VIDEO_CODEC_AMF := ''hevc_amf''\<rparr>) ''/in/clip.mkv''
       = ''clip_jellyfin_xevc_gpu.mp4''"
proof -
  have a: "\<not> sublist ''_amf'' ''hevc''" by code_simp
  have b: "filename_no_ext ''/in/clip.mkv'' = ''clip''" by code_simp
  show ?thesis
    using short_name_of_amf_codec [of "''hevc''"
        "DEFAULT_FFMPEG_CONFIG\<lparr>VIDEO_CODEC_AMF := ''hevc_amf''\<rparr>" "''/in/clip.mkv''"] a b
    by simp
qed

section \<open>The file scan\<close>

lemma str_split_not_Nil: "str_split c s \<noteq> []"
  by (induction s) (auto split: list.splits)

lemma str_split_no_sep: "c \<notin> set s \<Longrightarrow> str_split c s = [s]"
  by (induction s) auto

lemma str_split_append: "str_split c (pre @ c # t) = str_split c pre @ str_split c t"
proof (induction pre)
  case Nil
  show ?case by simp
next
  case (Cons x pre)
  obtain w ws where "str_split c pre = w # ws"
    using str_split_not_Nil [of c pre] by (cases "str_split c pre") auto
  with Cons show ?case by simp
qed

lemma last_str_split: "c \<notin> set t \<Longrightarrow> last (str_split c (pre @ c # t)) = t"
  by (simp add: str_split_append str_split_no_sep)

lemma file_ext_lower_dot:
  "CHR ''.'' \<notin> set ext \<Longrightarrow> file_ext_lower (stem @ ''.'' @ ext) = lower ext"
  by (simp add: file_ext_lower_def last_str_split)

lemma file_ext_lower_no_dot: "CHR ''.'' \<notin> set f \<Longrightarrow> file_ext_lower f = []"
  by (simp add: file_ext_lower_def)

lemma file_ext_lower_member:
  assumes "[] \<notin> set exts"
  shows "file_ext_lower f \<in> set exts \<longleftrightarrow>
         (\<exists>stem ext. f = stem @ ''.'' @ ext \<and> CHR ''.'' \<notin> set ext \<and> lower ext \<in> set exts)"
proof
  assume m: "file_ext_lower f \<in> set exts"
  have "CHR ''.'' \<in> set f"
  proof (rule ccontr)
    assume "CHR ''.'' \<notin> set f"
    then have "file_ext_lower f = []" by (rule file_ext_lower_no_dot)
    with m assms show False by simp
  qed
  then obtain stem ext where f: "f = stem @ CHR ''.'' # ext" and e: "CHR ''.'' \<notin> set ext"
    using split_list_last by fastforce
  have "file_ext_lower f = lower ext"
    using file_ext_lower_dot [OF e, of stem] f by simp
  with m f e show "\<exists>stem ext. f = stem @ ''.'' @ ext \<and> CHR ''.'' \<notin> set ext \<and> lower ext \<in> set exts"
    by auto
next
  assume "\<exists>stem ext. f = stem @ ''.'' @ ext \<and> CHR ''.'' \<notin> set ext \<and> lower ext \<in> set exts"
  then show "file_ext_lower f \<in> set exts"
    using file_ext_lower_dot by auto
qed

lemma target_extensions_no_empty:
  "[] \<notin> set (target_extensions (ConversionWorker d out cfg raw))"
  by (auto simp: ConversionWorker_def lower_def)

lemma set_matching_files:
  "set (matching_files d exts is_file L) =
     path_join d ` {f \<in> set L. file_ext_lower f \<in> set exts \<and> is_file (path_join d f)}"
  by (auto simp: matching_files_def)

lemma files_to_convert_props:
  "set (files_to_convert d exts is_file L) = set (matching_files d exts is_file L)
   \<and> sorted (files_to_convert d exts is_file L) \<and> distinct (files_to_convert d exts is_file L)"
  by (simp add: files_to_convert_def)

lemma files_to_convert_listing_order:
  "set L = set L' \<Longrightarrow> files_to_convert d exts is_file L = files_to_convert d exts is_file L'"
  by (simp add: files_to_convert_def set_matching_files)

text \<open>
  Claim C3. For a listing \<open>L\<close> and the extensions \<open>E\<close> of a worker (lower-cased, none
  empty), the scan gives the sorted list without duplicates of the paths of the names
  \<open>stem.ext\<close> in \<open>L\<close>, \<open>ext\<close> without a dot and equal in lower case to a member of \<open>E\<close>,
  that are regular files. A name without a dot is never selected, and two listings with
  the same names give the same list.
\<close>

theorem scan_sorted_subset:
  assumes "E = target_extensions (ConversionWorker d out cfg raw)"
  shows "set (files_to_convert d E is_file L) =
           {path_join d f | f stem ext.
              f \<in> set L \<and> f = stem @ ''.'' @ ext \<and> CHR ''.'' \<notin> set ext \<and>
              lower ext \<in> set E \<and> is_file (path_join d f)}
         \<and> sorted (files_to_convert d E is_file L)
         \<and> distinct (files_to_convert d E is_file L)
         \<and> (CHR ''.'' \<notin> set g \<longrightarrow> file_ext_lower g \<notin> set E)
         \<and> (set L = set L' \<longrightarrow> files_to_convert d E is_file L = files_to_convert d E is_file L')"
proof -
  have ne: "[] \<notin> set E"
    unfolding assms by (rule target_extensions_no_empty)
  have "set (files_to_convert d E is_file L) =
          path_join d ` {f \<in> set L. file_ext_lower f \<in> set E \<and> is_file (path_join d f)}"
    by (simp add: files_to_convert_props set_matching_files)
  also have "\<dots> = {path_join d f | f stem ext.
              f \<in> set L \<and> f = stem @ ''.'' @ ext \<and> CHR ''.'' \<notin> set ext \<and>
              lower ext \<in> set E \<and> is_file (path_join d f)}"
    unfolding file_ext_lower_member [OF ne] by blast
  finally show ?thesis
    using files_to_convert_props [of d E is_file L]
      files_to_convert_listing_order [of L L' d E is_file] ne file_ext_lower_no_dot [of g]
    by auto
qed

theorem scan_sorted_subset_witness:
  "[''mp4'', ''mkv''] =
     target_extensions (ConversionWorker ''/in'' ''/out'' DEFAULT_FFMPEG_CONFIG [''mp4'', [], ''MKV''])
   \<and> set [''c.txt'', ''b.MKV'', ''a.mp4''] = set [''a.mp4'', ''b.MKV'', ''c.txt'', ''a.mp4'']
   \<and> CHR ''.'' \<notin> set ''mkv''
   \<and> files_to_convert ''/in'' [''mp4'', ''mkv''] (\<lambda>p. True) [''c.txt'', ''b.MKV'', ''a.mp4'']
       = [''/in/a.mp4'', ''/in/b.MKV'']
   \<and> files_to_convert ''/in'' [''mp4'', ''mkv''] (\<lambda>p. True) [''a.mp4'', ''b.MKV'', ''c.txt'', ''a.mp4'']
       = [''/in/a.mp4'', ''/in/b.MKV'']
   \<and> file_ext_lower ''mkv'' \<notin> set [''mp4'', ''mkv'']"
proof -
  have e: "[''mp4'', ''mkv''] =
     target_extensions (ConversionWorker ''/in'' ''/out'' DEFAULT_FFMPEG_CONFIG [''mp4'', [], ''MKV''])"
    by code_simp
  have s: "set [''c.txt'', ''b.MKV'', ''a.mp4''] = set [''a.mp4'', ''b.MKV'', ''c.txt'', ''a.mp4'']"
    by auto
  have v: "files_to_convert ''/in'' [''mp4'', ''mkv''] (\<lambda>p. True) [''c.txt'', ''b.MKV'', ''a.mp4'']
       = [''/in/a.mp4'', ''/in/b.MKV'']"
    by code_simp
  have n: "CHR ''.'' \<notin> set ''mkv''" by simp
  show ?thesis
    using scan_sorted_subset [where is_file = "\<lambda>p. True" and L = "[''c.txt'', ''b.MKV'', ''a.mp4'']"
        and g = "''mkv''" and L' = "[''a.mp4'', ''b.MKV'', ''c.txt'', ''a.mp4'']", OF e] e s v n
    by simp
qed

section \<open>The events of a run\<close>

lemma progress_filters:
  "list_all is_progress ev \<Longrightarrow>
     filter is_terminal ev = [] \<and> filter is_finished ev = [] \<and>
     filter is_critical ev = [] \<and> filter is_overall ev = []"
proof (induction ev)
  case Nil
  show ?case by simp
next
  case (Cons e ev)
  then show ?case by (cases e) auto
qed

lemma stop_conversions_result:
  "stop_conversions tr st = (ev, st') \<Longrightarrow>
     list_all is_progress ev \<and> st' = st\<lparr>is_running := False, current_process := None\<rparr>"
  by (auto simp: stop_conversions_def split: option.splits term_result.splits)

lemma maybe_stop_None: "maybe_stop None st = ([], st)"
  by (simp add: maybe_stop_def)

lemma maybe_stop_progress: "maybe_stop req st = (ev, st') \<Longrightarrow> list_all is_progress ev"
  by (cases req) (auto simp: maybe_stop_def dest: stop_conversions_result)

lemma maybe_stop_Some:
  "maybe_stop (Some tr) st = (ev, st') \<Longrightarrow>
     st' = st\<lparr>is_running := False, current_process := None\<rparr>"
  by (auto simp: maybe_stop_def dest: stop_conversions_result)

lemma report_outcome_progress:
  "report_outcome name oname code out err st = (ev, st') \<Longrightarrow> list_all is_progress ev"
  by (auto simp: report_outcome_def split: outcome.splits)

lemma rc_notice_progress: "list_all is_progress (rc_notice cfg)"
  by (simp add: rc_notice_def)

lemma run_process_not_found:
  "proc fe = EngineNotFound \<Longrightarrow>
     run_process cmd name oname fe st =
       ([CriticalError msg_engine_not_found], st\<lparr>is_running := False\<rparr>, True)"
  by (simp add: run_process_def)

lemma run_process_found:
  assumes "proc fe \<noteq> EngineNotFound"
  shows "\<exists>ev st'. run_process cmd name oname fe st = (ev, st', False) \<and> list_all is_progress ev"
proof (cases "proc fe")
  case EngineNotFound
  with assms show ?thesis by simp
next
  case (LaunchError e)
  then show ?thesis by (simp add: run_process_def)
next
  case (Exited code out err)
  obtain ev1 st1 where a: "maybe_stop (stop_during fe) (st\<lparr>current_process := Some cmd\<rparr>) = (ev1, st1)"
    by fastforce
  obtain ev2 st3 where b:
    "maybe_stop (if stop_after fe then Some TermExited else None) (st1\<lparr>current_process := None\<rparr>) = (ev2, st3)"
    by fastforce
  obtain ev3 st4 where c: "report_outcome name oname code out err st3 = (ev3, st4)"
    by fastforce
  have "run_process cmd name oname fe st = (ev1 @ ev2 @ ev3, st4, False)"
    using Exited a b c by (simp add: run_process_def)
  moreover have "list_all is_progress (ev1 @ ev2 @ ev3)"
    using maybe_stop_progress [OF a] maybe_stop_progress [OF b] report_outcome_progress [OF c]
    by simp
  ultimately show ?thesis by blast
next
  case (CommError e)
  obtain ev1 st1 where a: "maybe_stop (stop_during fe) (st\<lparr>current_process := Some cmd\<rparr>) = (ev1, st1)"
    by fastforce
  show ?thesis
    using CommError a maybe_stop_progress [OF a] by (simp add: run_process_def)
qed

lemma convert_file_not_found:
  "proc fe = EngineNotFound \<Longrightarrow>
     \<exists>pre st'. convert_file out cfg n i p fe st =
                  (pre @ [CriticalError msg_engine_not_found], st', True) \<and>
                list_all is_progress pre"
  using rc_notice_progress [of cfg]
  by (simp add: convert_file_def run_process_not_found)

lemma convert_file_found:
  assumes "proc fe \<noteq> EngineNotFound"
  shows "\<exists>ev st'. convert_file out cfg n i p fe st = (ev, st', False) \<and> list_all is_progress ev"
proof -
  obtain ev st' where r:
    "run_process (ffmpeg_cmd_list out cfg p) (basename p) (output_filename cfg p) fe
       (st\<lparr>files_processed_count := files_processed_count st + 1\<rparr>) = (ev, st', False)"
    and pr: "list_all is_progress ev"
    using run_process_found [OF assms] by blast
  show ?thesis
    using r pr rc_notice_progress [of cfg] by (simp add: convert_file_def)
qed

lemma convert_file_returned:
  assumes "convert_file out cfg n i p fe st = (ev, st', ret)"
  shows "if ret then (\<exists>pre. ev = pre @ [CriticalError msg_engine_not_found] \<and> list_all is_progress pre)
         else list_all is_progress ev"
proof (cases "proc fe = EngineNotFound")
  case True
  then show ?thesis using convert_file_not_found [OF True, of out cfg n i p st] assms by auto
next
  case False
  then show ?thesis using convert_file_found [OF False, of out cfg n i p st] assms by auto
qed

lemma conversion_loop_step:
  assumes "maybe_stop (if stop_before (env i) then Some TermExited else None) st = (ev0, st0)"
  shows "conversion_loop out cfg env n i (p # rest) st =
     (if \<not> is_running st0 then (ev0 @ [Progress msg_cancelled_by_user], [], st0, False)
      else case convert_file out cfg n i p (env i) st0 of
        (ev1, st1, returned) \<Rightarrow>
          if returned then (ev0 @ ev1, [ffmpeg_cmd_list out cfg p], st1, True)
          else case conversion_loop out cfg env n (i + 1) rest st1 of
            (ev2, cmds, st2, returned2) \<Rightarrow>
              (ev0 @ ev1 @ OverallProgress (i + 1) n # ev2,
               ffmpeg_cmd_list out cfg p # cmds, st2, returned2))"
  using assms by (simp add: Let_def split: prod.splits)

lemma conversion_loop_events:
  "conversion_loop out cfg env n i files st = (ev, cmds, st', ret) \<Longrightarrow>
     filter is_finished ev = [] \<and>
     (if ret then (\<exists>pre. ev = pre @ [CriticalError msg_engine_not_found] \<and> filter is_critical pre = [])
      else filter is_critical ev = [])"
proof (induction files arbitrary: i st ev cmds st' ret)
  case Nil
  then show ?case by auto
next
  case (Cons p rest)
  obtain ev0 st0 where s0:
    "maybe_stop (if stop_before (env i) then Some TermExited else None) st = (ev0, st0)"
    by fastforce
  note step = conversion_loop_step [where env = env and i = i and out = out and cfg = cfg
      and n = n and p = p and rest = rest, OF s0]
  have f0: "filter is_finished ev0 = []" "filter is_critical ev0 = []"
    using progress_filters [OF maybe_stop_progress [OF s0]] by simp_all
  show ?case
  proof (cases "is_running st0")
    case False
    then have "ev = ev0 @ [Progress msg_cancelled_by_user]" "ret = False"
      using step Cons.prems by simp_all
    then show ?thesis using f0 by simp
  next
    case True
    obtain ev1 st1 r1 where c1: "convert_file out cfg n i p (env i) st0 = (ev1, st1, r1)"
      by (metis prod_cases3)
    note cr = convert_file_returned [OF c1]
    show ?thesis
    proof (cases r1)
      case True
      then obtain pre where pre: "ev1 = pre @ [CriticalError msg_engine_not_found]"
        "list_all is_progress pre"
        using cr by auto
      have "ev = ev0 @ ev1" "ret = True"
        using step Cons.prems \<open>is_running st0\<close> c1 True by simp_all
      then have "ev = (ev0 @ pre) @ [CriticalError msg_engine_not_found]" "ret"
        using pre by simp_all
      moreover have "filter is_critical (ev0 @ pre) = []" "filter is_finished (ev0 @ pre) = []"
        using f0 progress_filters [OF pre(2)] by simp_all
      ultimately show ?thesis by (auto simp del: append_assoc)
    next
      case False
      then have p1: "list_all is_progress ev1" using cr by simp
      obtain ev2 cmds2 st2 r2 where l2:
        "conversion_loop out cfg env n (i + 1) rest st1 = (ev2, cmds2, st2, r2)"
        by (metis prod_cases4)
      have e: "ev = ev0 @ ev1 @ OverallProgress (i + 1) n # ev2" "ret = r2"
        using step Cons.prems \<open>is_running st0\<close> c1 False l2 by simp_all
      note ih = Cons.IH [OF l2]
      show ?thesis
      proof (cases r2)
        case True
        then obtain pre where pre: "ev2 = pre @ [CriticalError msg_engine_not_found]"
          "filter is_critical pre = []"
          using ih by auto
        have "ev = (ev0 @ ev1 @ OverallProgress (i + 1) n # pre) @ [CriticalError msg_engine_not_found]"
          using e pre by simp
        moreover have "filter is_critical (ev0 @ ev1 @ OverallProgress (i + 1) n # pre) = []"
          using f0 progress_filters [OF p1] pre by simp
        moreover have "filter is_finished ev = []"
          using e f0 progress_filters [OF p1] ih by simp
        ultimately show ?thesis using True e by (auto simp del: append_assoc)
      next
        case False
        then show ?thesis
          using e f0 progress_filters [OF p1] ih by simp
      qed
    qed
  qed
qed

lemma terminal_filters:
  "filter is_finished ev = [] \<Longrightarrow> filter is_critical ev = [] \<Longrightarrow> filter is_terminal ev = []"
proof (induction ev)
  case Nil
  show ?case by simp
next
  case (Cons e ev)
  then show ?case by (cases e) (auto split: if_splits)
qed

lemma run_conversions_running:
  assumes "makedirs w (output_dir self) = None"
    and "target_extensions self \<noteq> []"
    and "listdir w (input_dir self) = Inr L"
    and "files_to_convert (input_dir self) (target_extensions self) (isfile w) L = files"
    and "files \<noteq> []"
    and "conversion_loop (output_dir self) (ffmpeg_params self) (sched w) (length files) 0 files
           initial_state = (ev, cmds, st, ret)"
    and "maybe_stop (if stop_at_end w then Some TermExited else None) st = (ev_stop, st')"
  shows "run_conversions self w =
     \<lparr>events =
        [Progress (msg_searching (target_extensions self) (input_dir self)),
         Progress (msg_found (length files)), OverallProgress 0 (length files)] @
        (if ret then ev else ev @ ev_stop @ [Finished (summary (length files) st')]),
      calls = [MakeDirs (output_dir self), ListDir (input_dir self)] @ map Popen cmds,
      made_dirs = [output_dir self], raised = None\<rparr>"
  using assms by (simp add: run_conversions_def Let_def)

text \<open>
  When \<open>os.makedirs\<close> returns or raises an \<open>OSError\<close>: whatever the job, the other
  answers of the file system, the fate of each process and the calls of
  \<open>stop_conversions\<close>, the events of a run end with \<open>Finished\<close> or with
  \<open>CriticalError\<close>, and neither occurs before that last event.
\<close>

lemma one_terminal_when_makedirs_caught:
  assumes "\<And>e. makedirs w (output_dir self) \<noteq> Some (Uncaught e)"
  shows "(\<exists>pre s. events (run_conversions self w) = pre @ [Finished s] \<and>
            filter is_terminal pre = [])
         \<or> (\<exists>pre s. events (run_conversions self w) = pre @ [CriticalError s] \<and>
               filter is_terminal pre = [])"
proof (cases "makedirs w (output_dir self)")
  case (Some err)
  then obtain e where "err = OSError e"
    using assms by (cases err) auto
  then have "events (run_conversions self w) =
      [] @ [CriticalError (msg_makedirs_failed (output_dir self) e)]"
    using Some by (simp add: run_conversions_def)
  then show ?thesis by (metis filter.simps(1))
next
  case None
  note mk = this
  show ?thesis
  proof (cases "target_extensions self = []")
    case True
    then have "events (run_conversions self w) = [Progress msg_no_formats] @ [Finished msg_no_formats_finished]"
      using mk by (simp add: run_conversions_def)
    moreover have "filter is_terminal [Progress msg_no_formats] = []" by simp
    ultimately show ?thesis by blast
  next
    case False
    note ex = this
    let ?s = "Progress (msg_searching (target_extensions self) (input_dir self))"
    show ?thesis
    proof (cases "listdir w (input_dir self)")
      case (Inl err)
      have "\<exists>s. events (run_conversions self w) = [?s] @ [CriticalError s]"
        using mk ex Inl by (cases err) (simp_all add: run_conversions_def Let_def)
      moreover have "filter is_terminal [?s] = []" by simp
      ultimately show ?thesis by blast
    next
      case (Inr L)
      note ls = this
      let ?files = "files_to_convert (input_dir self) (target_extensions self) (isfile w) L"
      show ?thesis
      proof (cases "?files = []")
        case True
        then have "events (run_conversions self w) =
            [?s, Progress (msg_no_files (target_extensions self) (input_dir self))] @
            [Finished msg_no_files_finished]"
          using mk ex ls by (simp add: run_conversions_def Let_def)
        moreover have "filter is_terminal
            [?s, Progress (msg_no_files (target_extensions self) (input_dir self))] = []"
          by simp
        ultimately show ?thesis by blast
      next
        case False
        obtain ev cmds st ret where lp:
          "conversion_loop (output_dir self) (ffmpeg_params self) (sched w) (length ?files) 0 ?files
             initial_state = (ev, cmds, st, ret)"
          by (metis prod_cases4)
        obtain ev_stop st' where sp:
          "maybe_stop (if stop_at_end w then Some TermExited else None) st = (ev_stop, st')"
          by fastforce
        let ?start = "[?s, Progress (msg_found (length ?files)), OverallProgress 0 (length ?files)]"
        note r = run_conversions_running [OF mk ex ls refl False lp sp]
        note le = conversion_loop_events [OF lp]
        have st0: "filter is_terminal ?start = []" by simp
        show ?thesis
        proof (cases ret)
          case True
          then obtain pre where pre: "ev = pre @ [CriticalError msg_engine_not_found]"
            "filter is_critical pre = []"
            using le by auto
          have "filter is_finished pre = []"
            using le pre by simp
          then have "filter is_terminal (?start @ pre) = []"
            using pre terminal_filters [of pre] by simp
          moreover have "events (run_conversions self w) =
              (?start @ pre) @ [CriticalError msg_engine_not_found]"
            using r True pre by simp
          ultimately show ?thesis by blast
        next
          case False
          then have "filter is_terminal ev = []"
            using le terminal_filters [of ev] by simp
          moreover have "filter is_terminal ev_stop = []"
            using progress_filters [OF maybe_stop_progress [OF sp]] by simp
          ultimately have "filter is_terminal (?start @ ev @ ev_stop) = []"
            by simp
          moreover have "events (run_conversions self w) =
              (?start @ ev @ ev_stop) @ [Finished (summary (length ?files) st')]"
            using r False by simp
          ultimately show ?thesis by blast
        qed
      qed
    qed
  qed
qed

text \<open>
  Claim C7: the events of every run end with exactly one of \<open>Finished\<close> and
  \<open>CriticalError\<close>, never neither. The code at a job whose output directory has a NUL
  character: \<open>os.makedirs\<close> raises \<open>ValueError\<close>, line 52 catches \<open>OSError\<close> only, the
  exception leaves \<open>run_conversions\<close> and no event at all is emitted.
\<close>

theorem uncaught_makedirs_error_no_event:
  "makedirs nul_world (output_dir nul_worker) = Some (Uncaught ''embedded null byte'')
   \<and> events (run_conversions nul_worker nul_world) = []
   \<and> raised (run_conversions nul_worker nul_world) = Some ''embedded null byte''
   \<and> calls (run_conversions nul_worker nul_world) = [MakeDirs (output_dir nul_worker)]"
  by code_simp

section \<open>Batches that nobody cancels\<close>

lemma convert_file_clean:
  assumes "not_cancelled fe" and "engine_found fe" and "is_running st"
  shows "\<exists>ev st'. convert_file out cfg n i p fe st = (ev, st', False) \<and>
           list_all is_progress ev \<and> is_running st' \<and>
           files_succeeded_count st' = files_succeeded_count st + (if exited_zero fe then 1 else 0) \<and>
           files_processed_count st' = files_processed_count st + 1"
proof (cases "proc fe")
  case EngineNotFound
  with assms show ?thesis by (simp add: engine_found_def)
next
  case (LaunchError e)
  then show ?thesis
    using assms rc_notice_progress [of cfg]
    by (simp add: convert_file_def run_process_def exited_zero_def Let_def)
next
  case (Exited code out err)
  then show ?thesis
    using assms rc_notice_progress [of cfg]
    by (simp add: convert_file_def run_process_def exited_zero_def not_cancelled_def
        maybe_stop_None report_outcome_def classify_def Let_def)
next
  case (CommError e)
  then show ?thesis
    using assms rc_notice_progress [of cfg]
    by (simp add: convert_file_def run_process_def exited_zero_def not_cancelled_def
        maybe_stop_None Let_def)
qed

lemma conversion_loop_clean:
  assumes "\<forall>j. i \<le> j \<and> j < i + length files \<longrightarrow> not_cancelled (env j) \<and> engine_found (env j)"
    and "is_running st"
  shows "\<exists>ev st'. conversion_loop out cfg env n i files st =
             (ev, map (ffmpeg_cmd_list out cfg) files, st', False) \<and>
           filter is_overall ev = map (\<lambda>k. OverallProgress k n) [i + 1 ..< i + 1 + length files] \<and>
           filter is_terminal ev = [] \<and> is_running st' \<and>
           files_succeeded_count st' =
             files_succeeded_count st + length (filter (\<lambda>j. exited_zero (env j)) [i ..< i + length files]) \<and>
           files_processed_count st' = files_processed_count st + length files"
  using assms
proof (induction files arbitrary: i st)
  case Nil
  then show ?case by simp
next
  case (Cons p rest)
  have here: "not_cancelled (env i)" "engine_found (env i)"
    using Cons.prems(1) by simp_all
  have s0: "maybe_stop (if stop_before (env i) then Some TermExited else None) st = ([], st)"
    using here by (simp add: not_cancelled_def maybe_stop_None)
  obtain ev1 st1 where c1: "convert_file out cfg n i p (env i) st = (ev1, st1, False)"
    and p1: "list_all is_progress ev1" and r1: "is_running st1"
    and n1: "files_succeeded_count st1 = files_succeeded_count st + (if exited_zero (env i) then 1 else 0)"
    and m1: "files_processed_count st1 = files_processed_count st + 1"
    using convert_file_clean [OF here Cons.prems(2), of out cfg n i p] by blast
  have rest: "\<forall>j. i + 1 \<le> j \<and> j < i + 1 + length rest \<longrightarrow> not_cancelled (env j) \<and> engine_found (env j)"
    using Cons.prems(1) by simp
  obtain ev2 st2 where l2: "conversion_loop out cfg env n (i + 1) rest st1 =
             (ev2, map (ffmpeg_cmd_list out cfg) rest, st2, False)"
    and o2: "filter is_overall ev2 = map (\<lambda>k. OverallProgress k n) [i + 1 + 1 ..< i + 1 + 1 + length rest]"
    and t2: "filter is_terminal ev2 = []" and r2: "is_running st2"
    and n2: "files_succeeded_count st2 =
             files_succeeded_count st1 + length (filter (\<lambda>j. exited_zero (env j)) [i + 1 ..< i + 1 + length rest])"
    and m2: "files_processed_count st2 = files_processed_count st1 + length rest"
    using Cons.IH [OF rest r1] by blast
  have step: "conversion_loop out cfg env n i (p # rest) st =
      (ev1 @ OverallProgress (i + 1) n # ev2, map (ffmpeg_cmd_list out cfg) (p # rest), st2, False)"
    using conversion_loop_step [where env = env and i = i and out = out and cfg = cfg
        and n = n and p = p and rest = rest, OF s0] Cons.prems(2) c1 l2
    by simp
  have u1: "[i + 1 ..< i + 1 + length (p # rest)] = (i + 1) # [i + 1 + 1 ..< i + 1 + 1 + length rest]"
    by (simp add: upt_rec)
  have u2: "[i ..< i + length (p # rest)] = i # [i + 1 ..< i + 1 + length rest]"
    by (simp add: upt_rec)
  have "filter is_overall (ev1 @ OverallProgress (i + 1) n # ev2) =
          map (\<lambda>k. OverallProgress k n) [i + 1 ..< i + 1 + length (p # rest)]"
    unfolding u1 using progress_filters [OF p1] o2 by simp
  moreover have "filter is_terminal (ev1 @ OverallProgress (i + 1) n # ev2) = []"
    using progress_filters [OF p1] t2 by simp
  moreover have "files_succeeded_count st2 =
      files_succeeded_count st + length (filter (\<lambda>j. exited_zero (env j)) [i ..< i + length (p # rest)])"
    unfolding u2 using n1 n2 by simp
  moreover have "files_processed_count st2 = files_processed_count st + length (p # rest)"
    using m1 m2 by simp
  ultimately show ?case
    using step r2 by blast
qed

text \<open>
  Claim C2, as it is written: in the batch of three files whose second process exits with
  code 1, the overall-progress events would be \<open>(1,3) (2,3) (3,3)\<close>. The worker also
  emits \<open>(0,3)\<close> before the first file (line 93).
\<close>

theorem overall_progress_starts_at_zero:
  "filter is_overall (events (run_conversions example_worker example_world)) \<noteq>
     [OverallProgress 1 3, OverallProgress 2 3, OverallProgress 3 3]"
  by code_simp

text \<open>
  Claim C2, amended. In a batch that reaches the loop with \<open>N\<close> files, that is never
  cancelled and in which every launch finds the engine, the overall-progress events are
  \<open>(0,N)\<close> once before the first file and then \<open>(i,N)\<close> once for each file \<open>i = 1..N\<close>,
  whatever the outcome of each file, and the summary reports the number of processes that
  exited with code 0 out of \<open>N\<close>. For the three files above: \<open>(0,3) (1,3) (2,3) (3,3)\<close> and
  \<open>2/3\<close>.
\<close>

theorem overall_progress_per_file:
  assumes "makedirs w (output_dir self) = None"
    and "target_extensions self \<noteq> []"
    and "listdir w (input_dir self) = Inr L"
    and "files_to_convert (input_dir self) (target_extensions self) (isfile w) L = files"
    and "files \<noteq> []"
    and "\<forall>j < length files. not_cancelled (sched w j) \<and> engine_found (sched w j)"
    and "\<not> stop_at_end w"
  shows "filter is_overall (events (run_conversions self w)) =
           map (\<lambda>k. OverallProgress k (length files)) [0 ..< Suc (length files)]
         \<and> last (events (run_conversions self w)) =
           Finished (msg_summary_completed
             (length (filter (\<lambda>j. exited_zero (sched w j)) [0 ..< length files])) (length files))"
proof -
  have clean: "\<forall>j. 0 \<le> j \<and> j < 0 + length files \<longrightarrow>
      not_cancelled (sched w j) \<and> engine_found (sched w j)"
    using assms(6) by simp
  have run0: "is_running initial_state" by (simp add: initial_state_def)
  obtain ev st where lp: "conversion_loop (output_dir self) (ffmpeg_params self) (sched w)
        (length files) 0 files initial_state =
        (ev, map (ffmpeg_cmd_list (output_dir self) (ffmpeg_params self)) files, st, False)"
    and ov: "filter is_overall ev = map (\<lambda>k. OverallProgress k (length files)) [0 + 1 ..< 0 + 1 + length files]"
    and rn: "is_running st"
    and sc: "files_succeeded_count st = files_succeeded_count initial_state +
        length (filter (\<lambda>j. exited_zero (sched w j)) [0 ..< 0 + length files])"
    using conversion_loop_clean [OF clean run0, of "output_dir self" "ffmpeg_params self" "length files"]
    by blast
  have sp: "maybe_stop (if stop_at_end w then Some TermExited else None) st = ([], st)"
    using assms(7) by (simp add: maybe_stop_None)
  have r: "events (run_conversions self w) =
      [Progress (msg_searching (target_extensions self) (input_dir self)),
       Progress (msg_found (length files)), OverallProgress 0 (length files)] @
      ev @ [Finished (summary (length files) st)]"
    using run_conversions_running [OF assms(1-5) lp sp] by simp
  have u: "[0 ..< Suc (length files)] = 0 # [0 + 1 ..< 0 + 1 + length files]"
    by (simp add: upt_rec)
  have "filter is_overall (events (run_conversions self w)) =
           map (\<lambda>k. OverallProgress k (length files)) [0 ..< Suc (length files)]"
    unfolding r u using ov by simp
  moreover have "summary (length files) st = msg_summary_completed
             (length (filter (\<lambda>j. exited_zero (sched w j)) [0 ..< length files])) (length files)"
    using rn sc by (simp add: summary_def initial_state_def)
  ultimately show ?thesis
    using r by simp
qed

theorem overall_progress_per_file_witness:
  "files_to_convert (input_dir example_worker) (target_extensions example_worker)
      (isfile example_world) [''c.mp4'', ''b.MKV'', ''a.mp4'', ''notes.txt'']
     = [''/in/a.mp4'', ''/in/b.MKV'', ''/in/c.mp4'']
   \<and> not_cancelled (sched example_world 0) \<and> engine_found (sched example_world 0)
   \<and> not_cancelled (sched example_world 1) \<and> engine_found (sched example_world 1)
   \<and> not_cancelled (sched example_world 2) \<and> engine_found (sched example_world 2)
   \<and> proc (sched example_world 1) = Exited 1 [] ''boom''
   \<and> filter is_overall (events (run_conversions example_worker example_world)) =
       [OverallProgress 0 3, OverallProgress 1 3, OverallProgress 2 3, OverallProgress 3 3]
   \<and> last (events (run_conversions example_worker example_world)) =
       Finished (msg_summary_completed 2 3)"
proof -
  have a: "makedirs example_world (output_dir example_worker) = None"
    by (simp add: example_world_def)
  have b: "target_extensions example_worker \<noteq> []"
    by (simp add: example_worker_def ConversionWorker_def)
  have c: "listdir example_world (input_dir example_worker) =
      Inr [''c.mp4'', ''b.MKV'', ''a.mp4'', ''notes.txt'']"
    by (simp add: example_world_def)
  have d: "files_to_convert (input_dir example_worker) (target_extensions example_worker)
      (isfile example_world) [''c.mp4'', ''b.MKV'', ''a.mp4'', ''notes.txt'']
     = [''/in/a.mp4'', ''/in/b.MKV'', ''/in/c.mp4'']"
    by code_simp
  have e: "[''/in/a.mp4'', ''/in/b.MKV'', ''/in/c.mp4''] \<noteq> []" by simp
  have f: "\<forall>j < length [''/in/a.mp4'', ''/in/b.MKV'', ''/in/c.mp4''].
      not_cancelled (sched example_world j) \<and> engine_found (sched example_world j)"
    by (simp add: example_world_def fe_ok_def not_cancelled_def engine_found_def)
  have g: "\<not> stop_at_end example_world" by (simp add: example_world_def)
  have l: "length [''/in/a.mp4'', ''/in/b.MKV'', ''/in/c.mp4''] = 3" by simp
  have h: "length (filter (\<lambda>j. exited_zero (sched example_world j)) [0 ..< 3]) = 2"
    by code_simp
  have u: "[0 ..< Suc 3] = [0, 1, 2, 3]"
    by code_simp
  have p: "proc (sched example_world 1) = Exited 1 [] ''boom''"
    by (simp add: example_world_def fe_ok_def)
  show ?thesis
    using overall_progress_per_file [OF a b c d e f g] d p unfolding l h u
    by (simp add: example_world_def fe_ok_def not_cancelled_def engine_found_def)
qed

section \<open>A missing engine\<close>

lemma conversion_loop_not_found:
  assumes "k < length files" and "is_running st"
    and "\<forall>j. i \<le> j \<and> j < i + k \<longrightarrow> not_cancelled (env j) \<and> engine_found (env j)"
    and "\<not> stop_before (env (i + k))" and "proc (env (i + k)) = EngineNotFound"
  shows "\<exists>ev st'. conversion_loop out cfg env n i files st =
           (ev, map (ffmpeg_cmd_list out cfg) (take (Suc k) files), st', True)"
  using assms
proof (induction k arbitrary: i files st)
  case 0
  then obtain p rest where f: "files = p # rest" by (cases files) auto
  have s0: "maybe_stop (if stop_before (env i) then Some TermExited else None) st = ([], st)"
    using "0.prems"(4) by (simp add: maybe_stop_None)
  obtain pre st' where "convert_file out cfg n i p (env i) st =
      (pre @ [CriticalError msg_engine_not_found], st', True)"
    using convert_file_not_found [of "env i" out cfg n i p st] "0.prems"(5) by auto
  then show ?case
    using conversion_loop_step [where env = env and i = i and out = out and cfg = cfg
        and n = n and p = p and rest = rest, OF s0] "0.prems"(2) f
    by simp
next
  case (Suc k)
  then obtain p rest where f: "files = p # rest" and kl: "k < length rest"
    by (cases files) auto
  have here: "not_cancelled (env i)" "engine_found (env i)"
    using Suc.prems(3) by simp_all
  have s0: "maybe_stop (if stop_before (env i) then Some TermExited else None) st = ([], st)"
    using here by (simp add: not_cancelled_def maybe_stop_None)
  obtain ev1 st1 where c1: "convert_file out cfg n i p (env i) st = (ev1, st1, False)"
    and r1: "is_running st1"
    using convert_file_clean [OF here Suc.prems(2), of out cfg n i p] by blast
  have rest: "\<forall>j. i + 1 \<le> j \<and> j < i + 1 + k \<longrightarrow> not_cancelled (env j) \<and> engine_found (env j)"
    using Suc.prems(3) by simp
  have "\<not> stop_before (env (i + 1 + k))" "proc (env (i + 1 + k)) = EngineNotFound"
    using Suc.prems(4,5) by simp_all
  then obtain ev2 st2 where "conversion_loop out cfg env n (i + 1) rest st1 =
           (ev2, map (ffmpeg_cmd_list out cfg) (take (Suc k) rest), st2, True)"
    using Suc.IH [OF kl r1 rest] by blast
  then show ?case
    using conversion_loop_step [where env = env and i = i and out = out and cfg = cfg
        and n = n and p = p and rest = rest, OF s0] Suc.prems(2) f c1
    by simp
qed

text \<open>
  Claim C6. When the loop reaches a file (no cancellation and no missing engine before it)
  and the launch of its process fails because \<open>ffmpeg\<close> is not found, the run ends with
  the critical error that says so, it is the only critical error, \<open>Finished\<close> is not
  emitted, and no process is launched for a later file. With \<open>k = 0\<close> this is the first
  invocation of the batch.
\<close>

theorem engine_not_found_aborts:
  assumes "makedirs w (output_dir self) = None"
    and "target_extensions self \<noteq> []"
    and "listdir w (input_dir self) = Inr L"
    and "files_to_convert (input_dir self) (target_extensions self) (isfile w) L = files"
    and "k < length files"
    and "\<forall>j < k. not_cancelled (sched w j) \<and> engine_found (sched w j)"
    and "\<not> stop_before (sched w k)"
    and "proc (sched w k) = EngineNotFound"
  shows "last (events (run_conversions self w)) = CriticalError msg_engine_not_found
         \<and> filter is_critical (events (run_conversions self w)) = [CriticalError msg_engine_not_found]
         \<and> filter is_finished (events (run_conversions self w)) = []
         \<and> calls (run_conversions self w) =
             [MakeDirs (output_dir self), ListDir (input_dir self)] @
             map (\<lambda>p. Popen (ffmpeg_cmd_list (output_dir self) (ffmpeg_params self) p))
               (take (Suc k) files)"
proof -
  have ne: "files \<noteq> []" using assms(5) by auto
  have clean: "\<forall>j. 0 \<le> j \<and> j < 0 + k \<longrightarrow> not_cancelled (sched w j) \<and> engine_found (sched w j)"
    using assms(6) by simp
  have run0: "is_running initial_state" by (simp add: initial_state_def)
  obtain ev st where lp: "conversion_loop (output_dir self) (ffmpeg_params self) (sched w)
        (length files) 0 files initial_state =
        (ev, map (ffmpeg_cmd_list (output_dir self) (ffmpeg_params self)) (take (Suc k) files), st, True)"
    using conversion_loop_not_found [OF assms(5) run0 clean, of "output_dir self" "ffmpeg_params self"
        "length files"] assms(7,8)
    by auto
  obtain ev_stop st' where sp:
    "maybe_stop (if stop_at_end w then Some TermExited else None) st = (ev_stop, st')"
    by fastforce
  obtain pre where pre: "ev = pre @ [CriticalError msg_engine_not_found]"
    "filter is_critical pre = []" and fin: "filter is_finished ev = []"
    using conversion_loop_events [OF lp] by auto
  have r: "run_conversions self w =
     \<lparr>events =
        [Progress (msg_searching (target_extensions self) (input_dir self)),
         Progress (msg_found (length files)), OverallProgress 0 (length files)] @ ev,
      calls = [MakeDirs (output_dir self), ListDir (input_dir self)] @
        map Popen (map (ffmpeg_cmd_list (output_dir self) (ffmpeg_params self)) (take (Suc k) files)),
      made_dirs = [output_dir self], raised = None\<rparr>"
    using run_conversions_running [OF assms(1-4) ne lp sp] by simp
  show ?thesis
    unfolding r using pre fin by (simp add: comp_def)
qed

theorem engine_not_found_aborts_witness:
  "files_to_convert (input_dir example_worker) (target_extensions example_worker)
      (isfile no_engine_world) [''c.mp4'', ''b.MKV'', ''a.mp4'', ''notes.txt'']
     = [''/in/a.mp4'', ''/in/b.MKV'', ''/in/c.mp4'']
   \<and> proc (sched no_engine_world 0) = EngineNotFound
   \<and> last (events (run_conversions example_worker no_engine_world)) =
       CriticalError msg_engine_not_found
   \<and> filter is_finished (events (run_conversions example_worker no_engine_world)) = []
   \<and> calls (run_conversions example_worker no_engine_world) =
       [MakeDirs ''/out'', ListDir ''/in'',
        Popen (ffmpeg_cmd_list ''/out'' DEFAULT_FFMPEG_CONFIG ''/in/a.mp4'')]"
proof -
  have a: "makedirs no_engine_world (output_dir example_worker) = None"
    by (simp add: no_engine_world_def example_world_def)
  have b: "target_extensions example_worker \<noteq> []"
    by (simp add: example_worker_def ConversionWorker_def)
  have c: "listdir no_engine_world (input_dir example_worker) =
      Inr [''c.mp4'', ''b.MKV'', ''a.mp4'', ''notes.txt'']"
    by (simp add: no_engine_world_def example_world_def)
  have d: "files_to_convert (input_dir example_worker) (target_extensions example_worker)
      (isfile no_engine_world) [''c.mp4'', ''b.MKV'', ''a.mp4'', ''notes.txt'']
     = [''/in/a.mp4'', ''/in/b.MKV'', ''/in/c.mp4'']"
    by code_simp
  have e: "0 < length [''/in/a.mp4'', ''/in/b.MKV'', ''/in/c.mp4'']" by simp
  have f: "\<forall>j < 0. not_cancelled (sched no_engine_world j) \<and> engine_found (sched no_engine_world j)"
    by simp
  have g: "\<not> stop_before (sched no_engine_world 0)"
    by (simp add: no_engine_world_def fe_ok_def)
  have h: "proc (sched no_engine_world 0) = EngineNotFound"
    by (simp add: no_engine_world_def fe_ok_def)
  have w: "output_dir example_worker = ''/out''" "input_dir example_worker = ''/in''"
    "ffmpeg_params example_worker = DEFAULT_FFMPEG_CONFIG"
    by (simp_all add: example_worker_def ConversionWorker_def)
  show ?thesis
    using engine_not_found_aborts [OF a b c d e f g h] d h by (simp add: w)
qed

section \<open>Cancellation while a process is live\<close>

text \<open>
  Claim C1, as it is written: a file whose process was live when \<open>stop_conversions\<close> was
  called would be recorded as interrupted and not counted, even if the process exits with
  code 0. In \<open>cancel_world 0\<close> the second file is reported as a success and the summary
  counts it: 2 of 2.
\<close>

theorem cancelled_exit_zero_is_success:
  "proc (sched (cancel_world 0) 1) = Exited 0 [] []
   \<and> stop_during (sched (cancel_world 0) 1) = Some TermExited
   \<and> Progress (msg_success ''b_jellyfin_x264_gpu.mp4'')
       \<in> set (events (run_conversions example_worker (cancel_world 0)))
   \<and> Progress (msg_interrupted ''b.MKV'')
       \<notin> set (events (run_conversions example_worker (cancel_world 0)))
   \<and> last (events (run_conversions example_worker (cancel_world 0))) =
       Finished (msg_summary_cancelled 2 2)"
  by code_simp

text \<open>
  Claim C1, amended. For a file whose process was live when \<open>stop_conversions\<close> was called
  and whose return code the worker read: with a code other than 0 the file is recorded as
  interrupted (its last message says so) and the succeeded counter does not change; with
  code 0 it is recorded as a success and counted (the test of line 136 asks for a code
  other than 0).
\<close>

theorem cancelled_process_outcome:
  assumes "proc fe = Exited code out err" and "stop_during fe = Some tr"
  shows "\<exists>ev st'. convert_file out_dir cfg n i p fe st = (ev, st', False) \<and> \<not> is_running st' \<and>
           (code \<noteq> 0 \<longrightarrow>
              classify (is_running st') code = Interrupted \<and>
              last ev = Progress (msg_interrupted (basename p)) \<and>
              files_succeeded_count st' = files_succeeded_count st) \<and>
           (code = 0 \<longrightarrow>
              classify (is_running st') code = Success \<and>
              last ev = Progress (msg_success (output_filename cfg p)) \<and>
              files_succeeded_count st' = files_succeeded_count st + 1)"
proof -
  let ?st1 = "st\<lparr>files_processed_count := files_processed_count st + 1,
                  current_process := Some (ffmpeg_cmd_list out_dir cfg p)\<rparr>"
  obtain ev1 st2 where a: "maybe_stop (stop_during fe) ?st1 = (ev1, st2)"
    by fastforce
  have st2: "st2 = ?st1\<lparr>is_running := False, current_process := None\<rparr>"
    using a assms(2) maybe_stop_Some by simp
  obtain ev2 st3 where b:
    "maybe_stop (if stop_after fe then Some TermExited else None) (st2\<lparr>current_process := None\<rparr>)
       = (ev2, st3)"
    by fastforce
  have st3: "st3 = st2"
  proof (cases "stop_after fe")
    case True
    then show ?thesis using b maybe_stop_Some [of TermExited "st2\<lparr>current_process := None\<rparr>" ev2 st3] st2
      by simp
  next
    case False
    then show ?thesis using b st2 by (simp add: maybe_stop_None)
  qed
  obtain ev3 st4 where c: "report_outcome (basename p) (output_filename cfg p) code out err st3 = (ev3, st4)"
    by fastforce
  have cf: "convert_file out_dir cfg n i p fe st =
      (Progress (msg_converting i n (basename p)) # rc_notice cfg @ ev1 @ ev2 @ ev3, st4, False)"
    using assms(1) a b c by (simp add: convert_file_def run_process_def Let_def)
  have nr: "\<not> is_running st3" using st3 st2 by simp
  have sc: "files_succeeded_count st3 = files_succeeded_count st" using st3 st2 by simp
  show ?thesis
  proof (cases "code = 0")
    case True
    then have "ev3 = [Progress (msg_success (output_filename cfg p))]"
      "st4 = st3\<lparr>files_succeeded_count := files_succeeded_count st3 + 1\<rparr>"
      using c by (simp_all add: report_outcome_def classify_def)
    then show ?thesis using cf nr sc True by (simp add: classify_def)
  next
    case False
    then have "ev3 = [Progress (msg_interrupted (basename p))]" "st4 = st3"
      using c nr by (simp_all add: report_outcome_def classify_def)
    then show ?thesis using cf nr sc False by (simp add: classify_def)
  qed
qed

theorem cancelled_process_outcome_witness:
  "proc (sched (cancel_world (- 15)) 1) = Exited (- 15) [] []
   \<and> stop_during (sched (cancel_world (- 15)) 1) = Some TermExited
   \<and> (\<exists>ev st'. convert_file ''/out'' DEFAULT_FFMPEG_CONFIG 3 1 ''/in/b.MKV''
          (sched (cancel_world (- 15)) 1) initial_state = (ev, st', False) \<and>
        last ev = Progress (msg_interrupted ''b.MKV'') \<and> files_succeeded_count st' = 0)
   \<and> last (events (run_conversions example_worker (cancel_world (- 15)))) =
       Finished (msg_summary_cancelled 1 2)"
proof -
  have r: "last (events (run_conversions example_worker (cancel_world (- 15)))) =
       Finished (msg_summary_cancelled 1 2)"
    by code_simp
  have a: "proc (sched (cancel_world (- 15)) 1) = Exited (- 15) [] []"
    by (simp add: cancel_world_def fe_ok_def)
  have b: "stop_during (sched (cancel_world (- 15)) 1) = Some TermExited"
    by (simp add: cancel_world_def fe_ok_def)
  have c: "basename ''/in/b.MKV'' = ''b.MKV''" by code_simp
  have d: "files_succeeded_count initial_state = 0" by (simp add: initial_state_def)
  show ?thesis
    using cancelled_process_outcome
      [OF a b, of "''/out''" DEFAULT_FFMPEG_CONFIG 3 1 "''/in/b.MKV''" initial_state] a b r
    unfolding c d by auto
qed

section \<open>The output directory\<close>

text \<open>
  Claim C9. \<open>os.makedirs\<close> on the output directory is the first call of every run: when
  it fails nothing else is called and no \<open>Finished\<close> is emitted, whatever the extensions.
  When it succeeds the output directory is among the directories made, also when the
  extension list is empty (the input directory is then not even listed) and when the scan
  finds no file, the run ending with the corresponding \<open>Finished\<close> event.
\<close>

theorem output_dir_created_first:
  "calls (run_conversions self w) \<noteq> []
   \<and> hd (calls (run_conversions self w)) = MakeDirs (output_dir self)
   \<and> (makedirs w (output_dir self) \<noteq> None \<longrightarrow>
        \<not> list_ex is_finished (events (run_conversions self w)) \<and>
        calls (run_conversions self w) = [MakeDirs (output_dir self)])
   \<and> (makedirs w (output_dir self) = None \<longrightarrow>
        output_dir self \<in> set (made_dirs (run_conversions self w)))
   \<and> (makedirs w (output_dir self) = None \<and> target_extensions self = [] \<longrightarrow>
        events (run_conversions self w) = [Progress msg_no_formats, Finished msg_no_formats_finished] \<and>
        calls (run_conversions self w) = [MakeDirs (output_dir self)] \<and>
        made_dirs (run_conversions self w) = [output_dir self])
   \<and> (makedirs w (output_dir self) = None \<and> target_extensions self \<noteq> [] \<and>
      listdir w (input_dir self) = Inr L \<and>
      files_to_convert (input_dir self) (target_extensions self) (isfile w) L = [] \<longrightarrow>
        last (events (run_conversions self w)) = Finished msg_no_files_finished \<and>
        calls (run_conversions self w) = [MakeDirs (output_dir self), ListDir (input_dir self)] \<and>
        made_dirs (run_conversions self w) = [output_dir self])"
proof -
  have 1: "calls (run_conversions self w) \<noteq> [] \<and>
      hd (calls (run_conversions self w)) = MakeDirs (output_dir self)"
    by (simp add: run_conversions_def Let_def
        split: option.splits makedirs_error.splits sum.splits os_error.splits prod.splits)
  have 2: "makedirs w (output_dir self) = None \<longrightarrow>
        output_dir self \<in> set (made_dirs (run_conversions self w))"
    by (simp add: run_conversions_def Let_def
        split: option.splits makedirs_error.splits sum.splits os_error.splits prod.splits)
  have 3: "makedirs w (output_dir self) \<noteq> None \<longrightarrow>
        \<not> list_ex is_finished (events (run_conversions self w)) \<and>
        calls (run_conversions self w) = [MakeDirs (output_dir self)]"
    by (auto simp: run_conversions_def split: makedirs_error.splits)
  show ?thesis
    using 1 2 3 by (simp add: run_conversions_def Let_def)
qed

theorem output_dir_created_first_witness:
  "makedirs example_world (output_dir (example_worker\<lparr>target_extensions := []\<rparr>)) = None
   \<and> target_extensions (example_worker\<lparr>target_extensions := []\<rparr>) = []
   \<and> events (run_conversions (example_worker\<lparr>target_extensions := []\<rparr>) example_world) =
       [Progress msg_no_formats, Finished msg_no_formats_finished]
   \<and> made_dirs (run_conversions (example_worker\<lparr>target_extensions := []\<rparr>) example_world) = [''/out'']
   \<and> makedirs example_world (output_dir (example_worker\<lparr>target_extensions := [''zip'']\<rparr>)) = None
   \<and> files_to_convert ''/in'' [''zip''] (isfile example_world)
        [''c.mp4'', ''b.MKV'', ''a.mp4'', ''notes.txt''] = []
   \<and> last (events (run_conversions (example_worker\<lparr>target_extensions := [''zip'']\<rparr>) example_world))
       = Finished msg_no_files_finished
   \<and> made_dirs (run_conversions (example_worker\<lparr>target_extensions := [''zip'']\<rparr>) example_world)
       = [''/out'']"
proof -
  have a: "makedirs example_world d = None" for d
    by (simp add: example_world_def)
  have o: "output_dir example_worker = ''/out''" "input_dir example_worker = ''/in''"
    by (simp_all add: example_worker_def ConversionWorker_def)
  have l: "listdir example_world ''/in'' = Inr [''c.mp4'', ''b.MKV'', ''a.mp4'', ''notes.txt'']"
    by (simp add: example_world_def)
  have f: "files_to_convert ''/in'' [''zip''] (isfile example_world)
        [''c.mp4'', ''b.MKV'', ''a.mp4'', ''notes.txt''] = []"
    by code_simp
  show ?thesis
    using output_dir_created_first [of "example_worker\<lparr>target_extensions := []\<rparr>" example_world "[]"]
      output_dir_created_first [of "example_worker\<lparr>target_extensions := [''zip'']\<rparr>" example_world
        "[''c.mp4'', ''b.MKV'', ''a.mp4'', ''notes.txt'']"]
    by (simp add: a o l f)
qed

end
